theory Spec2Isabelle
  imports Main
begin

section \<open>Entity model (pkg/db/models)\<close>

text \<open>
  Timestamps are abstract points in time; every statement that writes
  \<^verbatim>\<open>CURRENT_TIMESTAMP\<close> receives the current time as the argument \<open>now\<close>.
  Go's \<^verbatim>\<open>int64\<close> identifiers are integers (no arithmetic is done on them by the code),
  \<^verbatim>\<open>sql.NullInt64\<close> and \<^verbatim>\<open>sql.NullTime\<close> are options.
\<close>

type_synonym timestamp = nat

text \<open>\<^verbatim>\<open>type IssueState int\<close> with the constants declared by \<^verbatim>\<open>iota\<close>.\<close>

type_synonym IssueState = int

definition IssueStateOpen :: IssueState where
  "IssueStateOpen = 0"

definition IssueStateClosed :: IssueState where
  "IssueStateClosed = 1"

text \<open>\<^verbatim>\<open>type MergeRequestState int\<close> with the constants declared by \<^verbatim>\<open>iota\<close>.\<close>

type_synonym MergeRequestState = int

definition MergeRequestStateOpen :: MergeRequestState where
  "MergeRequestStateOpen = 0"

definition MergeRequestStateMerged :: MergeRequestState where
  "MergeRequestStateMerged = 1"

definition MergeRequestStateClosed :: MergeRequestState where
  "MergeRequestStateClosed = 2"

record Issue =
  ID :: int
  RepoID :: int
  Title :: string
  Description :: string
  State :: IssueState
  AuthorID :: int
  ClosedBy :: "int option"
  ClosedAt :: "timestamp option"
  CreatedAt :: timestamp
  UpdatedAt :: timestamp

record IssueDependency =
  ID :: int
  IssueID :: int
  DependsOnID :: int
  CreatedAt :: timestamp

record MergeRequest =
  ID :: int
  RepoID :: int
  Title :: string
  Description :: string
  SourceBranch :: string
  TargetBranch :: string
  State :: MergeRequestState
  AuthorID :: int
  MergedBy :: "int option"
  MergedAt :: "timestamp option"
  ClosedBy :: "int option"
  ClosedAt :: "timestamp option"
  CreatedAt :: timestamp
  UpdatedAt :: timestamp

section \<open>Errors\<close>

text \<open>
  Go's \<^verbatim>\<open>error\<close> values. A \<^verbatim>\<open>nil\<close> error is \<open>None\<close> of \<open>error option\<close>, or the
  \<open>Inr\<close> side of a sum. \<open>Errorf\<close> keeps the format string and its arguments,
  \<open>ErrorfW\<close> an error wrapped with \<^verbatim>\<open>%w\<close>.
\<close>

datatype error =
    ErrNoRows
  | ErrConstraint string
  | ErrUserNotFound
  | ErrorsNew string
  | Errorf string "string list"
  | ErrorfW string error
  | ErrExternal string

section \<open>The relational store\<close>

text \<open>
  The tables of the migrations, as lists of rows. Of the tables \<^verbatim>\<open>repos\<close> and
  \<^verbatim>\<open>users\<close>, which the foreign keys reference, only the key column \<^verbatim>\<open>id\<close> is kept.
  Each \<^verbatim>\<open>AUTOINCREMENT\<close>/\<^verbatim>\<open>SERIAL\<close> key has its sequence: the largest key ever
  handed out for the table. An inserted row takes the next key, and
  \<^verbatim>\<open>LastInsertId\<close> reports it, as the SQLite driver of the tests does.

  A statement fails only by violating a constraint of the schema; failures of the
  connection and cancelled contexts are left out.
\<close>

record DB =
  users :: "int list"
  repos :: "int list"
  issues :: "Issue list"
  issues_seq :: int
  merge_requests :: "MergeRequest list"
  merge_requests_seq :: int
  issue_dependencies :: "IssueDependency list"
  issue_dependencies_seq :: int

text \<open>\<^verbatim>\<open>sql.Result\<close>, what \<^verbatim>\<open>ExecContext\<close> returns beside the error.\<close>

record Result =
  LastInsertId :: int
  RowsAffected :: nat

text \<open>
  \<^verbatim>\<open>UPDATE t SET ... WHERE ...\<close> on the rows of one table: \<open>wh\<close> is the
  \<^verbatim>\<open>WHERE\<close> clause, \<open>st\<close> the \<^verbatim>\<open>SET\<close> clause and \<open>ok\<close> the constraints of the table
  that a rewritten row must satisfy. A statement violating a constraint fails as a
  whole; a statement matching no row succeeds with \<open>RowsAffected = 0\<close>.
\<close>

definition ExecUpdate ::
  "('r \<Rightarrow> bool) \<Rightarrow> ('r \<Rightarrow> 'r) \<Rightarrow> ('r \<Rightarrow> string option) \<Rightarrow> 'r list \<Rightarrow>
     error + (Result \<times> 'r list)" where
  "ExecUpdate wh st ok rows =
     (case List.map_filter (\<lambda>r. if wh r then ok (st r) else None) rows of
        c # _ \<Rightarrow> Inl (ErrConstraint c)
      | [] \<Rightarrow> Inr (\<lparr>LastInsertId = 0, RowsAffected = length (filter wh rows)\<rparr>,
                  map (\<lambda>r. if wh r then st r else r) rows))"

text \<open>\<^verbatim>\<open>GetContext\<close> of a row query: the first row, \<^verbatim>\<open>sql.ErrNoRows\<close> when there is none.\<close>

definition GetContext :: "('r \<Rightarrow> bool) \<Rightarrow> 'r list \<Rightarrow> error + 'r" where
  "GetContext wh rows = (case filter wh rows of [] \<Rightarrow> Inl ErrNoRows | r # _ \<Rightarrow> Inr r)"

text \<open>\<^verbatim>\<open>SELECT COUNT(*) FROM t WHERE ...\<close>.\<close>

definition Count :: "('r \<Rightarrow> bool) \<Rightarrow> 'r list \<Rightarrow> int" where
  "Count wh rows = int (length (filter wh rows))"

subsection \<open>Constraints of the schema (pkg/db/migrate)\<close>

text \<open>
  A foreign key of a table with rows of type \<open>'r\<close>, as the migrations declare it:
  \<^verbatim>\<open>CONSTRAINT name FOREIGN KEY(column) REFERENCES table(id) ON DELETE action\<close>.
  \<open>column\<close> reads the referencing column of a row (\<open>None\<close> is \<^verbatim>\<open>NULL\<close>) and
  \<open>set_null\<close> writes \<^verbatim>\<open>NULL\<close> into it. Every foreign key of these migrations
  references the column \<^verbatim>\<open>id\<close> of its parent table.
\<close>

datatype table = Users | Repos | Issues | MergeRequests | IssueDependencies

datatype on_delete = CASCADE | SET_NULL

record 'r foreign_key =
  constraint_name :: string
  column :: "'r \<Rightarrow> int option"
  set_null :: "'r \<Rightarrow> 'r"
  references :: table
  on_delete :: on_delete

text \<open>0005\_issues\_sqlite.up.sql\<close>

definition issues_fks :: "Issue foreign_key list" where
  "issues_fks =
     [\<lparr>constraint_name = ''repo_id_fk'', column = (\<lambda>i. Some (Issue.RepoID i)),
       set_null = (\<lambda>i. i), references = Repos, on_delete = CASCADE\<rparr>,
      \<lparr>constraint_name = ''author_id_fk'', column = (\<lambda>i. Some (Issue.AuthorID i)),
       set_null = (\<lambda>i. i), references = Users, on_delete = CASCADE\<rparr>,
      \<lparr>constraint_name = ''closed_by_fk'', column = Issue.ClosedBy,
       set_null = (\<lambda>i. i\<lparr>Issue.ClosedBy := None\<rparr>), references = Users,
       on_delete = SET_NULL\<rparr>]"

text \<open>The migration of the table \<^verbatim>\<open>merge_requests\<close>.\<close>

definition merge_requests_fks :: "MergeRequest foreign_key list" where
  "merge_requests_fks =
     [\<lparr>constraint_name = ''repo_id_fk'', column = (\<lambda>m. Some (MergeRequest.RepoID m)),
       set_null = (\<lambda>m. m), references = Repos, on_delete = CASCADE\<rparr>,
      \<lparr>constraint_name = ''author_id_fk'', column = (\<lambda>m. Some (MergeRequest.AuthorID m)),
       set_null = (\<lambda>m. m), references = Users, on_delete = CASCADE\<rparr>,
      \<lparr>constraint_name = ''merged_by_fk'', column = MergeRequest.MergedBy,
       set_null = (\<lambda>m. m\<lparr>MergeRequest.MergedBy := None\<rparr>), references = Users,
       on_delete = SET_NULL\<rparr>,
      \<lparr>constraint_name = ''closed_by_fk'', column = MergeRequest.ClosedBy,
       set_null = (\<lambda>m. m\<lparr>MergeRequest.ClosedBy := None\<rparr>), references = Users,
       on_delete = SET_NULL\<rparr>]"

text \<open>0006\_issue\_dependencies\_postgres.up.sql\<close>

definition issue_dependencies_fks :: "IssueDependency foreign_key list" where
  "issue_dependencies_fks =
     [\<lparr>constraint_name = ''issue_id_fk'', column = (\<lambda>e. Some (IssueDependency.IssueID e)),
       set_null = (\<lambda>e. e), references = Issues, on_delete = CASCADE\<rparr>,
      \<lparr>constraint_name = ''depends_on_id_fk'',
       column = (\<lambda>e. Some (IssueDependency.DependsOnID e)),
       set_null = (\<lambda>e. e), references = Issues, on_delete = CASCADE\<rparr>]"

text \<open>The keys (column \<^verbatim>\<open>id\<close>) present in a table.\<close>

fun keys :: "DB \<Rightarrow> table \<Rightarrow> int list" where
  "keys h Users = users h"
| "keys h Repos = repos h"
| "keys h Issues = map Issue.ID (issues h)"
| "keys h MergeRequests = map MergeRequest.ID (merge_requests h)"
| "keys h IssueDependencies = map IssueDependency.ID (issue_dependencies h)"

text \<open>Whether the row references, through the foreign key, one of the keys \<open>ks\<close>.\<close>

definition refers :: "'r foreign_key \<Rightarrow> int list \<Rightarrow> 'r \<Rightarrow> bool" where
  "refers fk ks r = (case column fk r of None \<Rightarrow> False | Some k \<Rightarrow> k \<in> set ks)"

text \<open>
  The check made when a row is inserted or rewritten: the name of the first foreign key
  whose column is not \<^verbatim>\<open>NULL\<close> and references no row of the parent table.
\<close>

definition fk_violation :: "DB \<Rightarrow> 'r foreign_key list \<Rightarrow> 'r \<Rightarrow> string option" where
  "fk_violation h fks r =
     (case filter (\<lambda>fk. column fk r \<noteq> None \<and> \<not> refers fk (keys h (references fk)) r) fks of
        [] \<Rightarrow> None
      | fk # _ \<Rightarrow> Some (constraint_name fk))"

text \<open>
  What the foreign keys \<open>fks\<close> of a table do to its rows when the rows with keys
  \<open>ks\<close> are deleted from table \<open>t\<close>: a row referencing a deleted key through an
  \<^verbatim>\<open>ON DELETE CASCADE\<close> key is deleted, and in a row that stays every
  \<^verbatim>\<open>ON DELETE SET NULL\<close> column referencing a deleted key becomes \<^verbatim>\<open>NULL\<close>.
\<close>

definition cascaded :: "table \<Rightarrow> int list \<Rightarrow> 'r foreign_key list \<Rightarrow> 'r \<Rightarrow> bool" where
  "cascaded t ks fks r =
     list_ex (\<lambda>fk. references fk = t \<and> on_delete fk = CASCADE \<and> refers fk ks r) fks"

definition nullify :: "table \<Rightarrow> int list \<Rightarrow> 'r foreign_key list \<Rightarrow> 'r \<Rightarrow> 'r" where
  "nullify t ks fks r =
     fold (\<lambda>fk r. if references fk = t \<and> on_delete fk = SET_NULL \<and> refers fk ks r
                   then set_null fk r else r) fks r"

definition deleted_rows :: "table \<Rightarrow> int list \<Rightarrow> 'r foreign_key list \<Rightarrow> 'r list \<Rightarrow> 'r list" where
  "deleted_rows t ks fks rows = filter (cascaded t ks fks) rows"

definition kept_rows :: "table \<Rightarrow> int list \<Rightarrow> 'r foreign_key list \<Rightarrow> 'r list \<Rightarrow> 'r list" where
  "kept_rows t ks fks rows =
     map (nullify t ks fks) (filter (\<lambda>r. \<not> cascaded t ks fks r) rows)"

text \<open>
  \<^verbatim>\<open>DELETE FROM repos WHERE id IN ks\<close> (the statement is issued by the repository
  store, outside the sources at hand; what it does to the three tables here follows
  from their foreign keys). The issues deleted by the foreign keys of \<^verbatim>\<open>issues\<close>
  are in turn parents of rows of \<^verbatim>\<open>issue_dependencies\<close>.
\<close>

definition delete_from_repos :: "int list \<Rightarrow> DB \<Rightarrow> DB" where
  "delete_from_repos ks h =
     (let gone = map Issue.ID (deleted_rows Repos ks issues_fks (issues h))
      in h\<lparr>repos := filter (\<lambda>k. k \<notin> set ks) (repos h),
           issues := kept_rows Repos ks issues_fks (issues h),
           merge_requests := kept_rows Repos ks merge_requests_fks (merge_requests h),
           issue_dependencies :=
             kept_rows Issues gone issue_dependencies_fks
               (kept_rows Repos ks issue_dependencies_fks (issue_dependencies h))\<rparr>)"

text \<open>
  Table \<^verbatim>\<open>issue_dependencies\<close>: the \<^verbatim>\<open>CHECK\<close> constraint \<^verbatim>\<open>no_self_dependency\<close>,
  the \<^verbatim>\<open>UNIQUE\<close> constraint \<^verbatim>\<open>unique_dependency\<close>, then the foreign keys.
\<close>

definition issue_dependencies_constraints :: "DB \<Rightarrow> IssueDependency \<Rightarrow> string option" where
  "issue_dependencies_constraints h e =
     (if IssueDependency.IssueID e = IssueDependency.DependsOnID e
      then Some ''no_self_dependency''
      else if filter (\<lambda>d. IssueDependency.IssueID d = IssueDependency.IssueID e \<and>
                          IssueDependency.DependsOnID d = IssueDependency.DependsOnID e)
                (issue_dependencies h) \<noteq> []
      then Some ''unique_dependency''
      else fk_violation h issue_dependencies_fks e)"

text \<open>
  Referential integrity: every row of the three tables satisfies the foreign keys of its
  table. The database keeps it; it is a hypothesis on the databases considered.
\<close>

definition referential_integrity :: "DB \<Rightarrow> bool" where
  "referential_integrity h =
     (list_all (\<lambda>i. fk_violation h issues_fks i = None) (issues h) \<and>
      list_all (\<lambda>m. fk_violation h merge_requests_fks m = None) (merge_requests h) \<and>
      list_all (\<lambda>e. fk_violation h issue_dependencies_fks e = None) (issue_dependencies h))"

text \<open>
  The sequences of the generated keys are ahead of the tables: no row of \<^verbatim>\<open>issues\<close>
  or \<^verbatim>\<open>merge_requests\<close> has a key larger than the last one handed out.
\<close>

definition sequences_ahead :: "DB \<Rightarrow> bool" where
  "sequences_ahead h =
     (list_all (\<lambda>i. Issue.ID i \<le> issues_seq h) (issues h) \<and>
      list_all (\<lambda>m. MergeRequest.ID m \<le> merge_requests_seq h) (merge_requests h))"

section \<open>Issue store (pkg/store/database)\<close>

definition issueStore_GetIssueByID :: "DB \<Rightarrow> int \<Rightarrow> int \<Rightarrow> error + Issue" where
  "issueStore_GetIssueByID h repoID id' =
     GetContext (\<lambda>i. Issue.RepoID i = repoID \<and> Issue.ID i = id') (issues h)"

definition issueStore_CreateIssue ::
  "timestamp \<Rightarrow> DB \<Rightarrow> int \<Rightarrow> int \<Rightarrow> string \<Rightarrow> string \<Rightarrow> error + (int \<times> DB)" where
  "issueStore_CreateIssue now h repoID authorID title description =
     (let row = \<lparr>Issue.ID = issues_seq h + 1, Issue.RepoID = repoID, Issue.Title = title,
                 Issue.Description = description, Issue.State = IssueStateOpen,
                 Issue.AuthorID = authorID, Issue.ClosedBy = None, Issue.ClosedAt = None,
                 Issue.CreatedAt = now, Issue.UpdatedAt = now\<rparr>
      in case fk_violation h issues_fks row of
           Some c \<Rightarrow> Inl (ErrConstraint c)
         | None \<Rightarrow> Inr (Issue.ID row,
                        h\<lparr>issues := issues h @ [row], issues_seq := Issue.ID row\<rparr>))"

definition issueStore_UpdateIssue ::
  "timestamp \<Rightarrow> DB \<Rightarrow> int \<Rightarrow> int \<Rightarrow> string \<Rightarrow> string \<Rightarrow> error + DB" where
  "issueStore_UpdateIssue now h repoID id' title description =
     (case ExecUpdate (\<lambda>i. Issue.RepoID i = repoID \<and> Issue.ID i = id')
             (\<lambda>i. i\<lparr>Issue.Title := title, Issue.Description := description,
                     Issue.UpdatedAt := now\<rparr>)
             (fk_violation h issues_fks) (issues h) of
        Inl err \<Rightarrow> Inl err
      | Inr (_, rows) \<Rightarrow> Inr (h\<lparr>issues := rows\<rparr>))"

definition issueStore_CloseIssue :: "timestamp \<Rightarrow> DB \<Rightarrow> int \<Rightarrow> int \<Rightarrow> int \<Rightarrow> error + DB" where
  "issueStore_CloseIssue now h repoID id' closedBy =
     (case ExecUpdate
             (\<lambda>i. Issue.RepoID i = repoID \<and> Issue.ID i = id' \<and> Issue.State i = IssueStateOpen)
             (\<lambda>i. i\<lparr>Issue.State := IssueStateClosed, Issue.ClosedBy := Some closedBy,
                     Issue.ClosedAt := Some now, Issue.UpdatedAt := now\<rparr>)
             (fk_violation h issues_fks) (issues h) of
        Inl err \<Rightarrow> Inl err
      | Inr (_, rows) \<Rightarrow> Inr (h\<lparr>issues := rows\<rparr>))"

definition issueStore_ReopenIssue :: "timestamp \<Rightarrow> DB \<Rightarrow> int \<Rightarrow> int \<Rightarrow> error + DB" where
  "issueStore_ReopenIssue now h repoID id' =
     (case ExecUpdate
             (\<lambda>i. Issue.RepoID i = repoID \<and> Issue.ID i = id' \<and> Issue.State i = IssueStateClosed)
             (\<lambda>i. i\<lparr>Issue.State := IssueStateOpen, Issue.ClosedBy := None,
                     Issue.ClosedAt := None, Issue.UpdatedAt := now\<rparr>)
             (fk_violation h issues_fks) (issues h) of
        Inl err \<Rightarrow> Inl err
      | Inr (_, rows) \<Rightarrow> Inr (h\<lparr>issues := rows\<rparr>))"

definition issueStore_AddIssueDependency ::
  "timestamp \<Rightarrow> DB \<Rightarrow> int \<Rightarrow> int \<Rightarrow> int \<Rightarrow> error + DB" where
  "issueStore_AddIssueDependency now h repoID issueID dependsOnID =
     (let count = Count (\<lambda>i. Issue.RepoID i = repoID \<and>
                             (Issue.ID i = issueID \<or> Issue.ID i = dependsOnID)) (issues h)
      in if count \<noteq> 2 then Inl ErrNoRows
         else let row = \<lparr>IssueDependency.ID = issue_dependencies_seq h + 1,
                          IssueDependency.IssueID = issueID,
                          IssueDependency.DependsOnID = dependsOnID,
                          IssueDependency.CreatedAt = now\<rparr>
              in case issue_dependencies_constraints h row of
                   Some c \<Rightarrow> Inl (ErrConstraint c)
                 | None \<Rightarrow> Inr (h\<lparr>issue_dependencies := issue_dependencies h @ [row],
                                 issue_dependencies_seq := IssueDependency.ID row\<rparr>))"

section \<open>Merge request store (pkg/store/database)\<close>

definition mergeRequestStore_GetMergeRequestByID ::
  "DB \<Rightarrow> int \<Rightarrow> int \<Rightarrow> error + MergeRequest" where
  "mergeRequestStore_GetMergeRequestByID h repoID id' =
     GetContext (\<lambda>m. MergeRequest.RepoID m = repoID \<and> MergeRequest.ID m = id')
       (merge_requests h)"

definition mergeRequestStore_CreateMergeRequest ::
  "timestamp \<Rightarrow> DB \<Rightarrow> int \<Rightarrow> int \<Rightarrow> string \<Rightarrow> string \<Rightarrow> string \<Rightarrow> string \<Rightarrow>
     error + (int \<times> DB)" where
  "mergeRequestStore_CreateMergeRequest now h repoID authorID title description
       sourceBranch targetBranch =
     (let row = \<lparr>MergeRequest.ID = merge_requests_seq h + 1, MergeRequest.RepoID = repoID,
                 MergeRequest.Title = title, MergeRequest.Description = description,
                 MergeRequest.SourceBranch = sourceBranch,
                 MergeRequest.TargetBranch = targetBranch,
                 MergeRequest.State = MergeRequestStateOpen,
                 MergeRequest.AuthorID = authorID,
                 MergeRequest.MergedBy = None, MergeRequest.MergedAt = None,
                 MergeRequest.ClosedBy = None, MergeRequest.ClosedAt = None,
                 MergeRequest.CreatedAt = now, MergeRequest.UpdatedAt = now\<rparr>
      in case fk_violation h merge_requests_fks row of
           Some c \<Rightarrow> Inl (ErrConstraint c)
         | None \<Rightarrow> Inr (MergeRequest.ID row,
                        h\<lparr>merge_requests := merge_requests h @ [row],
                          merge_requests_seq := MergeRequest.ID row\<rparr>))"

definition mergeRequestStore_UpdateMergeRequest ::
  "timestamp \<Rightarrow> DB \<Rightarrow> int \<Rightarrow> int \<Rightarrow> string \<Rightarrow> string \<Rightarrow> error + DB" where
  "mergeRequestStore_UpdateMergeRequest now h repoID id' title description =
     (case ExecUpdate (\<lambda>m. MergeRequest.RepoID m = repoID \<and> MergeRequest.ID m = id')
             (\<lambda>m. m\<lparr>MergeRequest.Title := title, MergeRequest.Description := description,
                     MergeRequest.UpdatedAt := now\<rparr>)
             (fk_violation h merge_requests_fks) (merge_requests h) of
        Inl err \<Rightarrow> Inl err
      | Inr (_, rows) \<Rightarrow> Inr (h\<lparr>merge_requests := rows\<rparr>))"

definition mergeRequestStore_MergeMergeRequest ::
  "timestamp \<Rightarrow> DB \<Rightarrow> int \<Rightarrow> int \<Rightarrow> int \<Rightarrow> error + DB" where
  "mergeRequestStore_MergeMergeRequest now h repoID id' mergedBy =
     (case ExecUpdate
             (\<lambda>m. MergeRequest.RepoID m = repoID \<and> MergeRequest.ID m = id' \<and>
                   MergeRequest.State m = MergeRequestStateOpen)
             (\<lambda>m. m\<lparr>MergeRequest.State := MergeRequestStateMerged,
                     MergeRequest.MergedBy := Some mergedBy,
                     MergeRequest.MergedAt := Some now, MergeRequest.UpdatedAt := now\<rparr>)
             (fk_violation h merge_requests_fks) (merge_requests h) of
        Inl err \<Rightarrow> Inl err
      | Inr (_, rows) \<Rightarrow> Inr (h\<lparr>merge_requests := rows\<rparr>))"

definition mergeRequestStore_CloseMergeRequest ::
  "timestamp \<Rightarrow> DB \<Rightarrow> int \<Rightarrow> int \<Rightarrow> int \<Rightarrow> error + DB" where
  "mergeRequestStore_CloseMergeRequest now h repoID id' closedBy =
     (case ExecUpdate
             (\<lambda>m. MergeRequest.RepoID m = repoID \<and> MergeRequest.ID m = id' \<and>
                   MergeRequest.State m = MergeRequestStateOpen)
             (\<lambda>m. m\<lparr>MergeRequest.State := MergeRequestStateClosed,
                     MergeRequest.ClosedBy := Some closedBy,
                     MergeRequest.ClosedAt := Some now, MergeRequest.UpdatedAt := now\<rparr>)
             (fk_violation h merge_requests_fks) (merge_requests h) of
        Inl err \<Rightarrow> Inl err
      | Inr (_, rows) \<Rightarrow> Inr (h\<lparr>merge_requests := rows\<rparr>))"

definition mergeRequestStore_ReopenMergeRequest ::
  "timestamp \<Rightarrow> DB \<Rightarrow> int \<Rightarrow> int \<Rightarrow> error + DB" where
  "mergeRequestStore_ReopenMergeRequest now h repoID id' =
     (case ExecUpdate
             (\<lambda>m. MergeRequest.RepoID m = repoID \<and> MergeRequest.ID m = id' \<and>
                   MergeRequest.State m = MergeRequestStateClosed)
             (\<lambda>m. m\<lparr>MergeRequest.State := MergeRequestStateOpen,
                     MergeRequest.ClosedBy := None,
                     MergeRequest.ClosedAt := None, MergeRequest.UpdatedAt := now\<rparr>)
             (fk_violation h merge_requests_fks) (merge_requests h) of
        Inl err \<Rightarrow> Inl err
      | Inr (_, rows) \<Rightarrow> Inr (h\<lparr>merge_requests := rows\<rparr>))"

text \<open>
  Sequences of calls of the store on merge requests: the four operations that rewrite a
  row, each with its arguments, and a history of such calls, each at its time. A call
  that fails leaves the database as it was.
\<close>

datatype MergeRequestOperation =
    OpUpdate int int string string
  | OpMerge int int int
  | OpClose int int int
  | OpReopen int int

fun run_operation :: "timestamp \<Rightarrow> DB \<Rightarrow> MergeRequestOperation \<Rightarrow> error + DB" where
  "run_operation now h (OpUpdate repoID id' title description) =
     mergeRequestStore_UpdateMergeRequest now h repoID id' title description"
| "run_operation now h (OpMerge repoID id' mergedBy) =
     mergeRequestStore_MergeMergeRequest now h repoID id' mergedBy"
| "run_operation now h (OpClose repoID id' closedBy) =
     mergeRequestStore_CloseMergeRequest now h repoID id' closedBy"
| "run_operation now h (OpReopen repoID id') =
     mergeRequestStore_ReopenMergeRequest now h repoID id'"

fun run_operations :: "DB \<Rightarrow> (timestamp \<times> MergeRequestOperation) list \<Rightarrow> DB" where
  "run_operations h [] = h"
| "run_operations h ((now, op) # ops) =
     run_operations (case run_operation now h op of Inl _ \<Rightarrow> h | Inr h' \<Rightarrow> h') ops"

text \<open>
  The relation between a row of \<^verbatim>\<open>merge_requests\<close> and the same row later that the
  terminal state asks for: the row keeps its identity; a merged row stays merged, with
  the user and the time of the merge as they were; and \<^verbatim>\<open>merged_by\<close> or
  \<^verbatim>\<open>merged_at\<close> differ only if the row is merged afterwards.
\<close>

definition merged_kept :: "MergeRequest \<Rightarrow> MergeRequest \<Rightarrow> bool" where
  "merged_kept m m' \<longleftrightarrow>
     MergeRequest.ID m' = MergeRequest.ID m \<and> MergeRequest.RepoID m' = MergeRequest.RepoID m \<and>
     (MergeRequest.State m = MergeRequestStateMerged \<longrightarrow>
        MergeRequest.State m' = MergeRequestStateMerged \<and>
        MergeRequest.MergedBy m' = MergeRequest.MergedBy m \<and>
        MergeRequest.MergedAt m' = MergeRequest.MergedAt m) \<and>
     (MergeRequest.MergedBy m' \<noteq> MergeRequest.MergedBy m \<or>
      MergeRequest.MergedAt m' \<noteq> MergeRequest.MergedAt m \<longrightarrow>
        MergeRequest.State m' = MergeRequestStateMerged)"

section \<open>Facade (pkg/backend)\<close>

text \<open>
  What the facade receives from other packages: \<^verbatim>\<open>proto.Repository\<close> and
  \<^verbatim>\<open>proto.User\<close> values, of which it reads the identifier and the user name, and the
  user carried by the context (\<^verbatim>\<open>proto.UserFromContext\<close>, \<open>None\<close> for \<^verbatim>\<open>nil\<close>).
\<close>

record proto_Repository =
  ID :: int
  Name :: string

record proto_User =
  ID :: int
  Username :: string

type_synonym Context = "proto_User option"

text \<open>
  The functions of other packages that the facade calls and whose code is not part of
  the sources at hand are parameters of the model. \<open>'g\<close> is the state of the git
  repositories on disk; an opened \<^verbatim>\<open>*git.Repository\<close> is its \<^verbatim>\<open>Path\<close>.
  \<^item> \<open>SanitizeRepo\<close>: \<^verbatim>\<open>utils.SanitizeRepo\<close>;
  \<^item> \<open>Repository\<close>: \<^verbatim>\<open>Backend.Repository\<close>, the lookup of a repository by name;
  \<^item> \<open>Open\<close>: \<^verbatim>\<open>proto.Repository.Open\<close>;
  \<^item> \<open>ShowRefVerify\<close>: \<^verbatim>\<open>git.Repository.ShowRefVerify\<close>;
  \<^item> \<open>RunInDir\<close>: \<^verbatim>\<open>git.NewCommand(args...).RunInDir(path)\<close>, of which the code
    keeps the error only;
  \<^item> \<open>WrapError\<close>: \<^verbatim>\<open>db.WrapError\<close>, applied by the code to non-nil errors only.
\<close>

record 'g collaborators =
  SanitizeRepo :: "string \<Rightarrow> string"
  Repository :: "string \<Rightarrow> DB \<Rightarrow> error + proto_Repository"
  Open :: "proto_Repository \<Rightarrow> 'g \<Rightarrow> error + string"
  ShowRefVerify :: "string \<Rightarrow> string \<Rightarrow> 'g \<Rightarrow> error + string"
  RunInDir :: "string list \<Rightarrow> string \<Rightarrow> 'g \<Rightarrow> error option \<times> 'g"
  WrapError :: "error \<Rightarrow> error"

text \<open>The state behind a \<^verbatim>\<open>Backend\<close>: its database and the repositories on disk.\<close>

record 'g Backend =
  db :: DB
  fs :: 'g

text \<open>
  Modelled from the spec: \<^verbatim>\<open>db.TransactionContext\<close> is not among the sources. It runs
  the function inside one transaction, which is committed when the function returns
  \<^verbatim>\<open>nil\<close> and rolled back when it returns an error. A failed function yields no
  database here, so the caller goes on with the one it had.
\<close>

definition TransactionContext :: "(DB \<Rightarrow> error + 'a) \<Rightarrow> DB \<Rightarrow> error + 'a" where
  "TransactionContext fn h = (case fn h of Inl err \<Rightarrow> Inl err | Inr r \<Rightarrow> Inr r)"

subsection \<open>issues.go\<close>

definition Backend_CreateIssue ::
  "'g collaborators \<Rightarrow> timestamp \<Rightarrow> Context \<Rightarrow> 'g Backend \<Rightarrow> string \<Rightarrow> string \<Rightarrow> string \<Rightarrow>
     (error + int) \<times> 'g Backend" where
  "Backend_CreateIssue c now ctx d repoName title description =
     (let repoName = SanitizeRepo c repoName
      in case Repository c repoName (db d) of
           Inl err \<Rightarrow> (Inl err, d)
         | Inr r \<Rightarrow>
             (case ctx of
                None \<Rightarrow> (Inl ErrUserNotFound, d)
              | Some user \<Rightarrow>
                  (case TransactionContext
                          (\<lambda>tx. issueStore_CreateIssue now tx (proto_Repository.ID r)
                                   (proto_User.ID user) title description) (db d) of
                     Inl err \<Rightarrow> (Inl (WrapError c err), d)
                   | Inr (issueID, h) \<Rightarrow> (Inr issueID, d\<lparr>db := h\<rparr>))))"

definition Backend_UpdateIssue ::
  "'g collaborators \<Rightarrow> timestamp \<Rightarrow> 'g Backend \<Rightarrow> string \<Rightarrow> int \<Rightarrow> string \<Rightarrow> string \<Rightarrow>
     error option \<times> 'g Backend" where
  "Backend_UpdateIssue c now d repoName issueID title description =
     (let repoName = SanitizeRepo c repoName
      in case Repository c repoName (db d) of
           Inl err \<Rightarrow> (Some err, d)
         | Inr r \<Rightarrow>
             (case TransactionContext
                     (\<lambda>tx. issueStore_UpdateIssue now tx (proto_Repository.ID r) issueID
                              title description) (db d) of
                Inl err \<Rightarrow> (Some (WrapError c err), d)
              | Inr h \<Rightarrow> (None, d\<lparr>db := h\<rparr>)))"

definition Backend_CloseIssue ::
  "'g collaborators \<Rightarrow> timestamp \<Rightarrow> Context \<Rightarrow> 'g Backend \<Rightarrow> string \<Rightarrow> int \<Rightarrow>
     error option \<times> 'g Backend" where
  "Backend_CloseIssue c now ctx d repoName issueID =
     (let repoName = SanitizeRepo c repoName
      in case Repository c repoName (db d) of
           Inl err \<Rightarrow> (Some err, d)
         | Inr r \<Rightarrow>
             (case ctx of
                None \<Rightarrow> (Some ErrUserNotFound, d)
              | Some user \<Rightarrow>
                  (case TransactionContext
                          (\<lambda>tx. issueStore_CloseIssue now tx (proto_Repository.ID r) issueID
                                   (proto_User.ID user)) (db d) of
                     Inl err \<Rightarrow> (Some (WrapError c err), d)
                   | Inr h \<Rightarrow> (None, d\<lparr>db := h\<rparr>))))"

definition Backend_ReopenIssue ::
  "'g collaborators \<Rightarrow> timestamp \<Rightarrow> 'g Backend \<Rightarrow> string \<Rightarrow> int \<Rightarrow>
     error option \<times> 'g Backend" where
  "Backend_ReopenIssue c now d repoName issueID =
     (let repoName = SanitizeRepo c repoName
      in case Repository c repoName (db d) of
           Inl err \<Rightarrow> (Some err, d)
         | Inr r \<Rightarrow>
             (case TransactionContext
                     (\<lambda>tx. issueStore_ReopenIssue now tx (proto_Repository.ID r) issueID)
                     (db d) of
                Inl err \<Rightarrow> (Some (WrapError c err), d)
              | Inr h \<Rightarrow> (None, d\<lparr>db := h\<rparr>)))"

definition Backend_AddIssueDependency ::
  "'g collaborators \<Rightarrow> timestamp \<Rightarrow> 'g Backend \<Rightarrow> string \<Rightarrow> int \<Rightarrow> int \<Rightarrow>
     error option \<times> 'g Backend" where
  "Backend_AddIssueDependency c now d repoName issueID dependsOnID =
     (let repoName = SanitizeRepo c repoName
      in case Repository c repoName (db d) of
           Inl err \<Rightarrow> (Some err, d)
         | Inr r \<Rightarrow>
             (case TransactionContext
                     (\<lambda>tx. issueStore_AddIssueDependency now tx (proto_Repository.ID r)
                              issueID dependsOnID) (db d) of
                Inl err \<Rightarrow> (Some (WrapError c err), d)
              | Inr h \<Rightarrow> (None, d\<lparr>db := h\<rparr>)))"

subsection \<open>merge\_requests.go\<close>

definition Backend_CreateMergeRequest ::
  "'g collaborators \<Rightarrow> timestamp \<Rightarrow> Context \<Rightarrow> 'g Backend \<Rightarrow> string \<Rightarrow> string \<Rightarrow> string \<Rightarrow>
     string \<Rightarrow> string \<Rightarrow> (error + int) \<times> 'g Backend" where
  "Backend_CreateMergeRequest c now ctx d repoName title description sourceBranch targetBranch =
     (let repoName = SanitizeRepo c repoName
      in case Repository c repoName (db d) of
           Inl err \<Rightarrow> (Inl err, d)
         | Inr r \<Rightarrow>
         (case ctx of
            None \<Rightarrow> (Inl ErrUserNotFound, d)
          | Some user \<Rightarrow>
          (case Open c r (fs d) of
             Inl err \<Rightarrow> (Inl (ErrorfW ''failed to open repository: %w'' err), d)
           | Inr gr \<Rightarrow>
           (case ShowRefVerify c gr (''refs/heads/'' @ sourceBranch) (fs d) of
              Inl err \<Rightarrow> (Inl (Errorf ''source branch %q does not exist'' [sourceBranch]), d)
            | Inr _ \<Rightarrow>
            (case ShowRefVerify c gr (''refs/heads/'' @ targetBranch) (fs d) of
               Inl err \<Rightarrow> (Inl (Errorf ''target branch %q does not exist'' [targetBranch]), d)
             | Inr _ \<Rightarrow>
             (case TransactionContext
                     (\<lambda>tx. mergeRequestStore_CreateMergeRequest now tx (proto_Repository.ID r)
                              (proto_User.ID user) title description sourceBranch
                              targetBranch) (db d) of
                Inl err \<Rightarrow> (Inl (WrapError c err), d)
              | Inr (mrID, h) \<Rightarrow> (Inr mrID, d\<lparr>db := h\<rparr>)))))))"

definition Backend_GetMergeRequest ::
  "'g collaborators \<Rightarrow> 'g Backend \<Rightarrow> string \<Rightarrow> int \<Rightarrow> error + MergeRequest" where
  "Backend_GetMergeRequest c d repoName mrID =
     (let repoName = SanitizeRepo c repoName
      in case Repository c repoName (db d) of
           Inl err \<Rightarrow> Inl err
         | Inr r \<Rightarrow>
             (case TransactionContext
                     (\<lambda>tx. mergeRequestStore_GetMergeRequestByID tx (proto_Repository.ID r) mrID)
                     (db d) of
                Inl err \<Rightarrow> Inl (WrapError c err)
              | Inr mr \<Rightarrow> Inr mr))"

definition Backend_UpdateMergeRequest ::
  "'g collaborators \<Rightarrow> timestamp \<Rightarrow> 'g Backend \<Rightarrow> string \<Rightarrow> int \<Rightarrow> string \<Rightarrow> string \<Rightarrow>
     error option \<times> 'g Backend" where
  "Backend_UpdateMergeRequest c now d repoName mrID title description =
     (let repoName = SanitizeRepo c repoName
      in case Repository c repoName (db d) of
           Inl err \<Rightarrow> (Some err, d)
         | Inr r \<Rightarrow>
             (case TransactionContext
                     (\<lambda>tx. mergeRequestStore_UpdateMergeRequest now tx (proto_Repository.ID r)
                              mrID title description) (db d) of
                Inl err \<Rightarrow> (Some (WrapError c err), d)
              | Inr h \<Rightarrow> (None, d\<lparr>db := h\<rparr>)))"

text \<open>
  \<^verbatim>\<open>fmt.Sprintf("Merge branch '%s' into '%s'", sourceBranch, targetBranch)\<close>;
  the character \<open>0x27\<close> is the single quote.
\<close>

definition commitMsg :: "string \<Rightarrow> string \<Rightarrow> string" where
  "commitMsg sourceBranch targetBranch =
     ''Merge branch '' @ [CHR 0x27] @ sourceBranch @ [CHR 0x27] @ '' into '' @
     [CHR 0x27] @ targetBranch @ [CHR 0x27]"

definition performMerge ::
  "'g collaborators \<Rightarrow> string \<Rightarrow> string \<Rightarrow> string \<Rightarrow> string \<Rightarrow> 'g \<Rightarrow> error option \<times> 'g" where
  "performMerge c repo sourceBranch targetBranch author g =
     (case RunInDir c [''checkout'', targetBranch] repo g of
        (Some err, g1) \<Rightarrow> (Some (ErrorfW ''failed to checkout target branch: %w'' err), g1)
      | (None, g1) \<Rightarrow>
          (case RunInDir c [''merge'', ''--no-ff'', ''-m'',
                             commitMsg sourceBranch targetBranch, sourceBranch] repo g1 of
             (Some err, g2) \<Rightarrow> (Some (ErrorfW ''failed to merge branches: %w'' err), g2)
           | (None, g2) \<Rightarrow> (None, g2)))"

text \<open>
  \<^verbatim>\<open>Backend.MergeMergeRequest\<close> reads the merge request in one transaction, runs git,
  and records the merge in a second transaction. The database is shared with other
  callers: \<open>env\<close> is what they commit between the two transactions (the identity when
  nobody else writes).
\<close>

definition Backend_MergeMergeRequest_interleaved ::
  "'g collaborators \<Rightarrow> timestamp \<Rightarrow> (DB \<Rightarrow> DB) \<Rightarrow> Context \<Rightarrow> 'g Backend \<Rightarrow> string \<Rightarrow> int \<Rightarrow>
     error option \<times> 'g Backend" where
  "Backend_MergeMergeRequest_interleaved c now env ctx d repoName mrID =
     (let repoName = SanitizeRepo c repoName
      in case Repository c repoName (db d) of
           Inl err \<Rightarrow> (Some err, d)
         | Inr r \<Rightarrow>
         (case ctx of
            None \<Rightarrow> (Some ErrUserNotFound, d)
          | Some user \<Rightarrow>
          (case Backend_GetMergeRequest c d repoName mrID of
             Inl err \<Rightarrow> (Some err, d)
           | Inr mr \<Rightarrow>
           if MergeRequest.State mr \<noteq> MergeRequestStateOpen
           then (Some (ErrorsNew ''merge request is not open''), d)
           else
           (case Open c r (fs d) of
              Inl err \<Rightarrow> (Some (ErrorfW ''failed to open repository: %w'' err), d)
            | Inr gr \<Rightarrow>
            (case performMerge c gr (MergeRequest.SourceBranch mr)
                    (MergeRequest.TargetBranch mr) (proto_User.Username user) (fs d) of
               (Some err, g) \<Rightarrow> (Some (ErrorfW ''failed to merge: %w'' err), d\<lparr>fs := g\<rparr>)
             | (None, g) \<Rightarrow>
             (case TransactionContext
                     (\<lambda>tx. mergeRequestStore_MergeMergeRequest now tx (proto_Repository.ID r)
                              mrID (proto_User.ID user)) (env (db d)) of
                Inl err \<Rightarrow> (Some (WrapError c err), \<lparr>db = env (db d), fs = g\<rparr>)
              | Inr h \<Rightarrow> (None, \<lparr>db = h, fs = g\<rparr>)))))))"

definition Backend_MergeMergeRequest ::
  "'g collaborators \<Rightarrow> timestamp \<Rightarrow> Context \<Rightarrow> 'g Backend \<Rightarrow> string \<Rightarrow> int \<Rightarrow>
     error option \<times> 'g Backend" where
  "Backend_MergeMergeRequest c now ctx d repoName mrID =
     Backend_MergeMergeRequest_interleaved c now (\<lambda>h. h) ctx d repoName mrID"

definition Backend_CloseMergeRequest ::
  "'g collaborators \<Rightarrow> timestamp \<Rightarrow> Context \<Rightarrow> 'g Backend \<Rightarrow> string \<Rightarrow> int \<Rightarrow>
     error option \<times> 'g Backend" where
  "Backend_CloseMergeRequest c now ctx d repoName mrID =
     (let repoName = SanitizeRepo c repoName
      in case Repository c repoName (db d) of
           Inl err \<Rightarrow> (Some err, d)
         | Inr r \<Rightarrow>
             (case ctx of
                None \<Rightarrow> (Some ErrUserNotFound, d)
              | Some user \<Rightarrow>
                  (case TransactionContext
                          (\<lambda>tx. mergeRequestStore_CloseMergeRequest now tx
                                   (proto_Repository.ID r) mrID (proto_User.ID user)) (db d) of
                     Inl err \<Rightarrow> (Some (WrapError c err), d)
                   | Inr h \<Rightarrow> (None, d\<lparr>db := h\<rparr>))))"

definition Backend_ReopenMergeRequest ::
  "'g collaborators \<Rightarrow> timestamp \<Rightarrow> 'g Backend \<Rightarrow> string \<Rightarrow> int \<Rightarrow>
     error option \<times> 'g Backend" where
  "Backend_ReopenMergeRequest c now d repoName mrID =
     (let repoName = SanitizeRepo c repoName
      in case Repository c repoName (db d) of
           Inl err \<Rightarrow> (Some err, d)
         | Inr r \<Rightarrow>
             (case TransactionContext
                     (\<lambda>tx. mergeRequestStore_ReopenMergeRequest now tx (proto_Repository.ID r)
                              mrID) (db d) of
                Inl err \<Rightarrow> (Some (WrapError c err), d)
              | Inr h \<Rightarrow> (None, d\<lparr>db := h\<rparr>)))"

section \<open>A concrete setting\<close>

text \<open>
  Two users, one repository with the branches \<^verbatim>\<open>main\<close> and \<^verbatim>\<open>feature\<close>, an open and
  a closed issue, an open and a merged merge request. The git commands that run are
  appended to a log, which stands for the state of the repository on disk.
\<close>

definition alice :: proto_User where
  "alice = \<lparr>proto_User.ID = 7, proto_User.Username = ''alice''\<rparr>"

definition bob :: proto_User where
  "bob = \<lparr>proto_User.ID = 8, proto_User.Username = ''bob''\<rparr>"

definition issue_open :: Issue where
  "issue_open = \<lparr>Issue.ID = 1, Issue.RepoID = 1, Issue.Title = ''Fix bug'',
     Issue.Description = [], Issue.State = 0, Issue.AuthorID = 7, Issue.ClosedBy = None,
     Issue.ClosedAt = None, Issue.CreatedAt = 1, Issue.UpdatedAt = 1\<rparr>"

definition issue_closed :: Issue where
  "issue_closed = \<lparr>Issue.ID = 2, Issue.RepoID = 1, Issue.Title = ''Old bug'',
     Issue.Description = [], Issue.State = 1, Issue.AuthorID = 7, Issue.ClosedBy = Some 8,
     Issue.ClosedAt = Some 3, Issue.CreatedAt = 2, Issue.UpdatedAt = 3\<rparr>"

definition mr_open :: MergeRequest where
  "mr_open = \<lparr>MergeRequest.ID = 1, MergeRequest.RepoID = 1, MergeRequest.Title = ''Feature'',
     MergeRequest.Description = [], MergeRequest.SourceBranch = ''feature'',
     MergeRequest.TargetBranch = ''main'', MergeRequest.State = 0,
     MergeRequest.AuthorID = 7, MergeRequest.MergedBy = None, MergeRequest.MergedAt = None,
     MergeRequest.ClosedBy = None, MergeRequest.ClosedAt = None,
     MergeRequest.CreatedAt = 1, MergeRequest.UpdatedAt = 1\<rparr>"

definition mr_merged :: MergeRequest where
  "mr_merged = \<lparr>MergeRequest.ID = 2, MergeRequest.RepoID = 1, MergeRequest.Title = ''Done'',
     MergeRequest.Description = [], MergeRequest.SourceBranch = ''feature'',
     MergeRequest.TargetBranch = ''main'', MergeRequest.State = 1,
     MergeRequest.AuthorID = 7, MergeRequest.MergedBy = Some 8, MergeRequest.MergedAt = Some 4,
     MergeRequest.ClosedBy = None, MergeRequest.ClosedAt = None,
     MergeRequest.CreatedAt = 2, MergeRequest.UpdatedAt = 4\<rparr>"

definition example_db :: DB where
  "example_db = \<lparr>users = [7, 8], repos = [1], issues = [issue_open, issue_closed],
     issues_seq = 2, merge_requests = [mr_open, mr_merged], merge_requests_seq = 2,
     issue_dependencies = [], issue_dependencies_seq = 0\<rparr>"

definition example_collaborators :: "string list list collaborators" where
  "example_collaborators =
     \<lparr>SanitizeRepo = (\<lambda>n. n),
      Repository = (\<lambda>n h. if n = ''repo'' \<and> 1 \<in> set (repos h)
                            then Inr \<lparr>proto_Repository.ID = 1, proto_Repository.Name = ''repo''\<rparr>
                            else Inl (ErrExternal ''repository not found'')),
      Open = (\<lambda>r g. Inr (''/repos/'' @ proto_Repository.Name r)),
      ShowRefVerify = (\<lambda>gr ref g. if ref = ''refs/heads/main'' \<or> ref = ''refs/heads/feature''
                                   then Inr ''0a1b2c'' else Inl (ErrExternal ''not a valid ref'')),
      RunInDir = (\<lambda>args dir g. (None, g @ [args])),
      WrapError = (\<lambda>err. err)\<rparr>"

definition example_backend :: "string list list Backend" where
  "example_backend = \<lparr>db = example_db, fs = []\<rparr>"

text \<open>
  A concurrent caller: Bob closes merge request 1 of repository 1 at time 8.
\<close>

definition bob_closes :: "DB \<Rightarrow> DB" where
  "bob_closes h =
     (case mergeRequestStore_CloseMergeRequest 8 h 1 1 8 of Inl _ \<Rightarrow> h | Inr h' \<Rightarrow> h')"

text \<open>
  A second repository with an issue and a merge request of its own, and in repository
  1 the dependency of issue 1 on issue 2.
\<close>

definition issue_other :: Issue where
  "issue_other = \<lparr>Issue.ID = 3, Issue.RepoID = 2, Issue.Title = ''Elsewhere'',
     Issue.Description = [], Issue.State = 0, Issue.AuthorID = 8, Issue.ClosedBy = None,
     Issue.ClosedAt = None, Issue.CreatedAt = 5, Issue.UpdatedAt = 5\<rparr>"

definition mr_other :: MergeRequest where
  "mr_other = \<lparr>MergeRequest.ID = 3, MergeRequest.RepoID = 2, MergeRequest.Title = ''Other'',
     MergeRequest.Description = [], MergeRequest.SourceBranch = ''topic'',
     MergeRequest.TargetBranch = ''main'', MergeRequest.State = 0,
     MergeRequest.AuthorID = 8, MergeRequest.MergedBy = None, MergeRequest.MergedAt = None,
     MergeRequest.ClosedBy = None, MergeRequest.ClosedAt = None,
     MergeRequest.CreatedAt = 5, MergeRequest.UpdatedAt = 5\<rparr>"

definition edge_1_2 :: IssueDependency where
  "edge_1_2 = \<lparr>IssueDependency.ID = 1, IssueDependency.IssueID = 1,
     IssueDependency.DependsOnID = 2, IssueDependency.CreatedAt = 6\<rparr>"

definition two_repos_db :: DB where
  "two_repos_db = \<lparr>users = [7, 8], repos = [1, 2],
     issues = [issue_open, issue_closed, issue_other], issues_seq = 3,
     merge_requests = [mr_open, mr_merged, mr_other], merge_requests_seq = 3,
     issue_dependencies = [edge_1_2], issue_dependencies_seq = 1\<rparr>"

section \<open>Lemmas on the statements of the store\<close>

lemma ExecUpdate_ok:
  "List.map_filter (\<lambda>r. if wh r then ok (st r) else None) rows = [] \<Longrightarrow>
   ExecUpdate wh st ok rows =
     Inr (\<lparr>LastInsertId = 0, RowsAffected = length (filter wh rows)\<rparr>,
          map (\<lambda>r. if wh r then st r else r) rows)"
  by (simp add: ExecUpdate_def)

lemma ExecUpdate_zero_rows:
  "filter wh rows = [] \<Longrightarrow>
   ExecUpdate wh st ok rows = Inr (\<lparr>LastInsertId = 0, RowsAffected = 0\<rparr>, rows)"
proof -
  assume a: "filter wh rows = []"
  then have n: "\<forall>r\<in>set rows. \<not> wh r" by (simp add: filter_empty_conv)
  then have "List.map_filter (\<lambda>r. if wh r then ok (st r) else None) rows = []"
    by (induction rows) (auto simp: List.map_filter_simps)
  moreover from n have "map (\<lambda>r. if wh r then st r else r) rows = rows"
    by (induction rows) auto
  ultimately show ?thesis using a by (simp add: ExecUpdate_def)
qed

lemma map_filter_single:
  "(\<And>r. r \<in> set rows \<Longrightarrow> wh r \<Longrightarrow> ok (st r) = None) \<Longrightarrow>
   List.map_filter (\<lambda>r. if wh r then ok (st r) else None) rows = []"
  by (induction rows) (auto simp: List.map_filter_simps)

lemma GetContext_map:
  assumes "\<And>r. key (g r) = key r"
  shows "GetContext key (map g rows) = map_sum (\<lambda>e. e) g (GetContext key rows)"
proof -
  have "filter key (map g rows) = map g (filter key rows)"
    using assms by (induction rows) auto
  then show ?thesis by (simp add: GetContext_def split: list.splits)
qed

lemma GetContext_mem: "GetContext key rows = Inr r \<Longrightarrow> r \<in> set rows \<and> key r"
proof -
  assume "GetContext key rows = Inr r"
  then obtain xs where "filter key rows = r # xs"
    by (auto simp: GetContext_def split: list.splits)
  then have "r \<in> set (filter key rows)" by simp
  then show ?thesis by simp
qed

lemma issues_fk_violation_None_iff:
  "fk_violation h issues_fks x = None \<longleftrightarrow>
     Issue.RepoID x \<in> set (repos h) \<and> Issue.AuthorID x \<in> set (users h) \<and>
     (\<forall>u. Issue.ClosedBy x = Some u \<longrightarrow> u \<in> set (users h))"
  by (auto simp: fk_violation_def issues_fks_def refers_def split: list.splits option.splits)

lemma merge_requests_fk_violation_None_iff:
  "fk_violation h merge_requests_fks x = None \<longleftrightarrow>
     MergeRequest.RepoID x \<in> set (repos h) \<and> MergeRequest.AuthorID x \<in> set (users h) \<and>
     (\<forall>u. MergeRequest.MergedBy x = Some u \<longrightarrow> u \<in> set (users h)) \<and>
     (\<forall>u. MergeRequest.ClosedBy x = Some u \<longrightarrow> u \<in> set (users h))"
  by (auto simp: fk_violation_def merge_requests_fks_def refers_def
           split: list.splits option.splits)

lemma issue_dependencies_fk_violation_None_iff:
  "fk_violation h issue_dependencies_fks x = None \<longleftrightarrow>
     IssueDependency.IssueID x \<in> Issue.ID ` set (issues h) \<and>
     IssueDependency.DependsOnID x \<in> Issue.ID ` set (issues h)"
  by (auto simp: fk_violation_def issue_dependencies_fks_def refers_def
           split: list.splits option.splits)

lemma example_db_integrity: "referential_integrity example_db"
  by (simp add: referential_integrity_def issues_fk_violation_None_iff
        merge_requests_fk_violation_None_iff example_db_def issue_open_def issue_closed_def
        mr_open_def mr_merged_def)

section \<open>Round trip of close and reopen\<close>

text \<open>
  Claim C8. For any issue that is open, closing it (by an existing user) and then
  reopening it succeeds, and the issue read back is open with \<^verbatim>\<open>closed_by\<close> and
  \<^verbatim>\<open>closed_at\<close> \<^verbatim>\<open>NULL\<close>: it is the issue as it was, with these two columns
  \<^verbatim>\<open>NULL\<close> and \<^verbatim>\<open>updated_at\<close> the time of the reopening. The database is
  assumed to satisfy its foreign keys.
\<close>

theorem close_then_reopen_roundtrip:
  assumes got: "issueStore_GetIssueByID h repoID id' = Inr i"
      and opn: "Issue.State i = IssueStateOpen"
      and int: "referential_integrity h"
      and act: "actor \<in> set (users h)"
  shows "\<exists>h1 h2 r. issueStore_CloseIssue t1 h repoID id' actor = Inr h1 \<and>
           issueStore_ReopenIssue t2 h1 repoID id' = Inr h2 \<and>
           issueStore_GetIssueByID h2 repoID id' = Inr r \<and>
           Issue.State r = IssueStateOpen \<and> Issue.ClosedBy r = None \<and>
           Issue.ClosedAt r = None \<and>
           r = i\<lparr>Issue.ClosedBy := None, Issue.ClosedAt := None, Issue.UpdatedAt := t2\<rparr>"
proof -
  define key where "key = (\<lambda>x::Issue. Issue.RepoID x = repoID \<and> Issue.ID x = id')"
  define wh1 where "wh1 = (\<lambda>x::Issue. Issue.RepoID x = repoID \<and> Issue.ID x = id' \<and>
                               Issue.State x = IssueStateOpen)"
  define st1 where "st1 = (\<lambda>x::Issue. x\<lparr>Issue.State := IssueStateClosed,
      Issue.ClosedBy := Some actor, Issue.ClosedAt := Some t1, Issue.UpdatedAt := t1\<rparr>)"
  define wh2 where "wh2 = (\<lambda>x::Issue. Issue.RepoID x = repoID \<and> Issue.ID x = id' \<and>
                               Issue.State x = IssueStateClosed)"
  define st2 where "st2 = (\<lambda>x::Issue. x\<lparr>Issue.State := IssueStateOpen,
      Issue.ClosedBy := None, Issue.ClosedAt := None, Issue.UpdatedAt := t2\<rparr>)"
  define g1 where "g1 = (\<lambda>x. if wh1 x then st1 x else x)"
  define g2 where "g2 = (\<lambda>x. if wh2 x then st2 x else x)"
  define h1 where "h1 = h\<lparr>issues := map g1 (issues h)\<rparr>"
  define h2 where "h2 = h1\<lparr>issues := map g2 (issues h1)\<rparr>"
  have ref: "\<forall>x\<in>set (issues h). fk_violation h issues_fks x = None"
    using int by (simp add: referential_integrity_def list_all_iff)
  have geti: "GetContext key (issues h) = Inr i"
    using got by (simp add: issueStore_GetIssueByID_def key_def)
  then have keyi: "key i" by (simp add: GetContext_mem)
  have ok1: "List.map_filter (\<lambda>r. if wh1 r then fk_violation h issues_fks (st1 r) else None)
               (issues h) = []"
  proof (rule map_filter_single)
    fix r assume "r \<in> set (issues h)" "wh1 r"
    with ref have "fk_violation h issues_fks r = None" by blast
    then show "fk_violation h issues_fks (st1 r) = None"
      using act by (simp add: issues_fk_violation_None_iff st1_def)
  qed
  have close: "issueStore_CloseIssue t1 h repoID id' actor = Inr h1"
    using ok1 ExecUpdate_ok [where wh = wh1 and st = st1 and ok = "fk_violation h issues_fks"
                           and rows = "issues h"]
    by (simp add: issueStore_CloseIssue_def wh1_def st1_def h1_def g1_def)
  have ok2: "List.map_filter (\<lambda>r. if wh2 r then fk_violation h1 issues_fks (st2 r) else None)
               (issues h1) = []"
  proof (rule map_filter_single)
    fix r assume "r \<in> set (issues h1)" "wh2 r"
    then obtain r0 where r0: "r0 \<in> set (issues h)" "r = g1 r0"
      by (auto simp: h1_def)
    with ref have "fk_violation h issues_fks r0 = None" by blast
    then show "fk_violation h1 issues_fks (st2 r) = None"
      using r0 by (simp add: issues_fk_violation_None_iff st2_def g1_def st1_def h1_def)
  qed
  have reopen: "issueStore_ReopenIssue t2 h1 repoID id' = Inr h2"
    using ok2 ExecUpdate_ok [where wh = wh2 and st = st2 and ok = "fk_violation h1 issues_fks"
                           and rows = "issues h1"]
    by (simp add: issueStore_ReopenIssue_def wh2_def st2_def h2_def g2_def)
  have k1: "\<And>r. key (g1 r) = key r" by (simp add: key_def g1_def st1_def)
  have k2: "\<And>r. key (g2 r) = key r" by (simp add: key_def g2_def st2_def)
  have "GetContext key (issues h1) = Inr (g1 i)"
    using geti GetContext_map [of key g1 "issues h", OF k1] by (simp add: h1_def)
  then have "GetContext key (issues h2) = Inr (g2 (g1 i))"
    using GetContext_map [of key g2 "issues h1", OF k2] by (simp add: h2_def)
  moreover have "g2 (g1 i) =
      i\<lparr>Issue.ClosedBy := None, Issue.ClosedAt := None, Issue.UpdatedAt := t2\<rparr>"
    using keyi opn
    by (simp add: g1_def g2_def wh1_def wh2_def st1_def st2_def key_def
          IssueStateClosed_def IssueStateOpen_def)
  ultimately have get2: "issueStore_GetIssueByID h2 repoID id' =
      Inr (i\<lparr>Issue.ClosedBy := None, Issue.ClosedAt := None, Issue.UpdatedAt := t2\<rparr>)"
    by (simp add: issueStore_GetIssueByID_def key_def)
  show ?thesis using close reopen get2 opn by simp
qed

theorem close_then_reopen_roundtrip_witness:
  "issueStore_GetIssueByID example_db 1 1 = Inr issue_open \<and>
   Issue.State issue_open = IssueStateOpen \<and>
   referential_integrity example_db \<and>
   8 \<in> set (users example_db) \<and>
   (\<exists>h1 h2 r. issueStore_CloseIssue 5 example_db 1 1 8 = Inr h1 \<and>
      issueStore_ReopenIssue 6 h1 1 1 = Inr h2 \<and>
      issueStore_GetIssueByID h2 1 1 = Inr r \<and>
      Issue.State r = IssueStateOpen \<and> Issue.ClosedBy r = None \<and>
      Issue.ClosedAt r = None \<and>
      r = issue_open\<lparr>Issue.ClosedBy := None, Issue.ClosedAt := None, Issue.UpdatedAt := 6\<rparr>)"
proof -
  have a: "issueStore_GetIssueByID example_db 1 1 = Inr issue_open"
    by (simp add: issueStore_GetIssueByID_def GetContext_def example_db_def issue_open_def
          issue_closed_def)
  have b: "Issue.State issue_open = IssueStateOpen"
    by (simp add: issue_open_def IssueStateOpen_def)
  have c: "referential_integrity example_db"
    by (simp add: example_db_integrity)
  have d: "8 \<in> set (users example_db)"
    by (simp add: example_db_def)
  show ?thesis
    using a b c d close_then_reopen_roundtrip [OF a b c d, of 5 6] by simp
qed

section \<open>Guarded transitions that match no row\<close>

lemma issueStore_CloseIssue_zero_rows:
  "filter (\<lambda>i. Issue.RepoID i = repoID \<and> Issue.ID i = id' \<and>
                Issue.State i = IssueStateOpen) (issues h) = [] \<Longrightarrow>
   issueStore_CloseIssue now h repoID id' closedBy = Inr h"
  by (simp add: issueStore_CloseIssue_def ExecUpdate_zero_rows)

lemma issueStore_ReopenIssue_zero_rows:
  "filter (\<lambda>i. Issue.RepoID i = repoID \<and> Issue.ID i = id' \<and>
                Issue.State i = IssueStateClosed) (issues h) = [] \<Longrightarrow>
   issueStore_ReopenIssue now h repoID id' = Inr h"
  by (simp add: issueStore_ReopenIssue_def ExecUpdate_zero_rows)

lemma mergeRequestStore_CloseMergeRequest_zero_rows:
  "filter (\<lambda>m. MergeRequest.RepoID m = repoID \<and> MergeRequest.ID m = id' \<and>
                MergeRequest.State m = MergeRequestStateOpen) (merge_requests h) = [] \<Longrightarrow>
   mergeRequestStore_CloseMergeRequest now h repoID id' closedBy = Inr h"
  by (simp add: mergeRequestStore_CloseMergeRequest_def ExecUpdate_zero_rows)

lemma mergeRequestStore_MergeMergeRequest_zero_rows:
  "filter (\<lambda>m. MergeRequest.RepoID m = repoID \<and> MergeRequest.ID m = id' \<and>
                MergeRequest.State m = MergeRequestStateOpen) (merge_requests h) = [] \<Longrightarrow>
   mergeRequestStore_MergeMergeRequest now h repoID id' mergedBy = Inr h"
  by (simp add: mergeRequestStore_MergeMergeRequest_def ExecUpdate_zero_rows)

lemma mergeRequestStore_ReopenMergeRequest_zero_rows:
  "filter (\<lambda>m. MergeRequest.RepoID m = repoID \<and> MergeRequest.ID m = id' \<and>
                MergeRequest.State m = MergeRequestStateClosed) (merge_requests h) = [] \<Longrightarrow>
   mergeRequestStore_ReopenMergeRequest now h repoID id' = Inr h"
  by (simp add: mergeRequestStore_ReopenMergeRequest_def ExecUpdate_zero_rows)

lemma Backend_CloseIssue_zero_rows:
  "Repository c (SanitizeRepo c repoName) (db d) = Inr r \<Longrightarrow>
   filter (\<lambda>i. Issue.RepoID i = proto_Repository.ID r \<and> Issue.ID i = issueID \<and>
                Issue.State i = IssueStateOpen) (issues (db d)) = [] \<Longrightarrow>
   Backend_CloseIssue c now (Some user) d repoName issueID = (None, d)"
  by (simp add: Backend_CloseIssue_def TransactionContext_def issueStore_CloseIssue_zero_rows)

lemma Backend_ReopenIssue_zero_rows:
  "Repository c (SanitizeRepo c repoName) (db d) = Inr r \<Longrightarrow>
   filter (\<lambda>i. Issue.RepoID i = proto_Repository.ID r \<and> Issue.ID i = issueID \<and>
                Issue.State i = IssueStateClosed) (issues (db d)) = [] \<Longrightarrow>
   Backend_ReopenIssue c now d repoName issueID = (None, d)"
  by (simp add: Backend_ReopenIssue_def TransactionContext_def issueStore_ReopenIssue_zero_rows)

lemma example_Repository:
  "Repository example_collaborators (SanitizeRepo example_collaborators ''repo'') example_db =
     Inr \<lparr>proto_Repository.ID = 1, proto_Repository.Name = ''repo''\<rparr>"
  by (simp add: example_collaborators_def example_db_def)

lemma example_issue_closed:
  "issueStore_GetIssueByID example_db 1 2 = Inr issue_closed \<and>
   Issue.State issue_closed = IssueStateClosed"
  by (simp add: issueStore_GetIssueByID_def GetContext_def example_db_def issue_open_def
        issue_closed_def IssueStateClosed_def)

lemma example_issue_open:
  "issueStore_GetIssueByID example_db 1 1 = Inr issue_open \<and>
   Issue.State issue_open = IssueStateOpen"
  by (simp add: issueStore_GetIssueByID_def GetContext_def example_db_def issue_open_def
        issue_closed_def IssueStateOpen_def)

lemma example_no_open_issue_2:
  "filter (\<lambda>i. Issue.RepoID i = 1 \<and> Issue.ID i = 2 \<and>
                Issue.State i = IssueStateOpen) (issues example_db) = []"
  by (simp add: example_db_def issue_open_def issue_closed_def IssueStateOpen_def)

lemma example_no_closed_issue_1:
  "filter (\<lambda>i. Issue.RepoID i = 1 \<and> Issue.ID i = 1 \<and>
                Issue.State i = IssueStateClosed) (issues example_db) = []"
  by (simp add: example_db_def issue_open_def issue_closed_def IssueStateClosed_def)

lemma example_no_open_mr_2:
  "filter (\<lambda>m. MergeRequest.RepoID m = 1 \<and> MergeRequest.ID m = 2 \<and>
                MergeRequest.State m = MergeRequestStateOpen) (merge_requests example_db) = []"
  by (simp add: example_db_def mr_open_def mr_merged_def MergeRequestStateOpen_def)

text \<open>
  Claim C1, as stated: a guarded transition that matches no row returns an InvalidState
  failure. The code returns \<^verbatim>\<open>nil\<close>: closing the closed issue 2, reopening the open
  issue 1 and merging the merged merge request 2 all succeed and change nothing, in
  the store and through the facade.
\<close>

theorem guarded_transition_invalid_state_counterexample:
  "issueStore_GetIssueByID example_db 1 2 = Inr issue_closed \<and>
   Issue.State issue_closed = IssueStateClosed \<and>
   issueStore_CloseIssue 9 example_db 1 2 8 = Inr example_db \<and>
   issueStore_GetIssueByID example_db 1 1 = Inr issue_open \<and>
   Issue.State issue_open = IssueStateOpen \<and>
   issueStore_ReopenIssue 9 example_db 1 1 = Inr example_db \<and>
   mergeRequestStore_MergeMergeRequest 9 example_db 1 2 8 = Inr example_db \<and>
   Backend_CloseIssue example_collaborators 9 (Some bob) example_backend ''repo'' 2 =
     (None, example_backend) \<and>
   Backend_ReopenIssue example_collaborators 9 example_backend ''repo'' 1 =
     (None, example_backend)"
  using example_issue_closed example_issue_open example_Repository
  by (simp add: issueStore_CloseIssue_zero_rows issueStore_ReopenIssue_zero_rows
        mergeRequestStore_MergeMergeRequest_zero_rows Backend_CloseIssue_zero_rows
        Backend_ReopenIssue_zero_rows example_no_open_issue_2 example_no_closed_issue_1
        example_no_open_mr_2 example_backend_def)

text \<open>
  Claim C1, amended: each of the five guarded transitions of the store whose
  \<^verbatim>\<open>WHERE\<close> clause matches no row returns \<^verbatim>\<open>nil\<close> and leaves the database as it
  was, and the facade passes the \<^verbatim>\<open>nil\<close> on: closing an issue that is not open and
  reopening an issue that is not closed succeed without effect.
\<close>

theorem guarded_transition_zero_rows_succeeds:
  "(filter (\<lambda>i. Issue.RepoID i = repoID \<and> Issue.ID i = ic \<and>
                 Issue.State i = IssueStateOpen) (issues h) = [] \<longrightarrow>
      issueStore_CloseIssue now h repoID ic actor = Inr h) \<and>
   (filter (\<lambda>i. Issue.RepoID i = repoID \<and> Issue.ID i = ir \<and>
                 Issue.State i = IssueStateClosed) (issues h) = [] \<longrightarrow>
      issueStore_ReopenIssue now h repoID ir = Inr h) \<and>
   (filter (\<lambda>m. MergeRequest.RepoID m = repoID \<and> MergeRequest.ID m = mc \<and>
                 MergeRequest.State m = MergeRequestStateOpen) (merge_requests h) = [] \<longrightarrow>
      mergeRequestStore_CloseMergeRequest now h repoID mc actor = Inr h \<and>
      mergeRequestStore_MergeMergeRequest now h repoID mc actor = Inr h) \<and>
   (filter (\<lambda>m. MergeRequest.RepoID m = repoID \<and> MergeRequest.ID m = mr \<and>
                 MergeRequest.State m = MergeRequestStateClosed) (merge_requests h) = [] \<longrightarrow>
      mergeRequestStore_ReopenMergeRequest now h repoID mr = Inr h) \<and>
   (Repository c (SanitizeRepo c repoName) (db d) = Inr r \<longrightarrow>
    filter (\<lambda>i. Issue.RepoID i = proto_Repository.ID r \<and> Issue.ID i = ic \<and>
                 Issue.State i = IssueStateOpen) (issues (db d)) = [] \<longrightarrow>
      Backend_CloseIssue c now (Some user) d repoName ic = (None, d)) \<and>
   (Repository c (SanitizeRepo c repoName) (db d) = Inr r \<longrightarrow>
    filter (\<lambda>i. Issue.RepoID i = proto_Repository.ID r \<and> Issue.ID i = ir \<and>
                 Issue.State i = IssueStateClosed) (issues (db d)) = [] \<longrightarrow>
      Backend_ReopenIssue c now d repoName ir = (None, d))"
  by (simp add: issueStore_CloseIssue_zero_rows issueStore_ReopenIssue_zero_rows
    mergeRequestStore_CloseMergeRequest_zero_rows mergeRequestStore_MergeMergeRequest_zero_rows
    mergeRequestStore_ReopenMergeRequest_zero_rows Backend_CloseIssue_zero_rows
    Backend_ReopenIssue_zero_rows)

theorem guarded_transition_zero_rows_succeeds_witness:
  "issueStore_CloseIssue 5 example_db 1 2 7 = Inr example_db \<and>
   issueStore_ReopenIssue 5 example_db 1 1 = Inr example_db \<and>
   mergeRequestStore_CloseMergeRequest 5 example_db 1 2 7 = Inr example_db \<and>
   mergeRequestStore_MergeMergeRequest 5 example_db 1 2 7 = Inr example_db \<and>
   mergeRequestStore_ReopenMergeRequest 5 example_db 1 1 = Inr example_db \<and>
   Backend_CloseIssue example_collaborators 5 (Some alice) example_backend ''repo'' 2 =
     (None, example_backend) \<and>
   Backend_ReopenIssue example_collaborators 5 example_backend ''repo'' 1 =
     (None, example_backend)"
proof -
  have a: "filter (\<lambda>i. Issue.RepoID i = 1 \<and> Issue.ID i = 2 \<and>
                 Issue.State i = IssueStateOpen) (issues example_db) = []"
    by (simp add: example_db_def issue_open_def issue_closed_def IssueStateOpen_def)
  have b: "filter (\<lambda>i. Issue.RepoID i = 1 \<and> Issue.ID i = 1 \<and>
                 Issue.State i = IssueStateClosed) (issues example_db) = []"
    by (simp add: example_db_def issue_open_def issue_closed_def IssueStateClosed_def)
  have c: "filter (\<lambda>m. MergeRequest.RepoID m = 1 \<and> MergeRequest.ID m = 2 \<and>
                 MergeRequest.State m = MergeRequestStateOpen) (merge_requests example_db) = []"
    by (simp add: example_db_def mr_open_def mr_merged_def MergeRequestStateOpen_def)
  have d: "filter (\<lambda>m. MergeRequest.RepoID m = 1 \<and> MergeRequest.ID m = 1 \<and>
                 MergeRequest.State m = MergeRequestStateClosed) (merge_requests example_db) = []"
    by (simp add: example_db_def mr_open_def mr_merged_def MergeRequestStateClosed_def)
  show ?thesis
    using a b c d example_Repository
      guarded_transition_zero_rows_succeeds [of 1 2 example_db 5 7 1 2 1 example_collaborators
        "''repo''" example_backend "\<lparr>proto_Repository.ID = 1, proto_Repository.Name = ''repo''\<rparr>"
        alice]
    by (simp add: example_backend_def)
qed

section \<open>Update\<close>

lemma GetContext_ErrNoRows: "GetContext key rows = Inl e \<longleftrightarrow> filter key rows = [] \<and> e = ErrNoRows"
  by (auto simp: GetContext_def split: list.splits)

lemma issueStore_UpdateIssue_ok:
  assumes "referential_integrity h"
  shows "issueStore_UpdateIssue now h repoID id' title description =
     Inr (h\<lparr>issues := map (\<lambda>i. if Issue.RepoID i = repoID \<and> Issue.ID i = id'
                                  then i\<lparr>Issue.Title := title, Issue.Description := description,
                                         Issue.UpdatedAt := now\<rparr>
                                  else i) (issues h)\<rparr>)"
proof -
  have "List.map_filter (\<lambda>r. if Issue.RepoID r = repoID \<and> Issue.ID r = id'
          then fk_violation h issues_fks (r\<lparr>Issue.Title := title,
                 Issue.Description := description, Issue.UpdatedAt := now\<rparr>)
          else None) (issues h) = []"
  proof (rule map_filter_single)
    fix r assume "r \<in> set (issues h)"
    with assms have "fk_violation h issues_fks r = None"
      by (simp add: referential_integrity_def list_all_iff)
    then show "fk_violation h issues_fks (r\<lparr>Issue.Title := title,
                 Issue.Description := description, Issue.UpdatedAt := now\<rparr>) = None"
      by (simp add: issues_fk_violation_None_iff)
  qed
  then show ?thesis
    by (simp add: issueStore_UpdateIssue_def ExecUpdate_def)
qed

lemma mergeRequestStore_UpdateMergeRequest_ok:
  assumes "referential_integrity h"
  shows "mergeRequestStore_UpdateMergeRequest now h repoID id' title description =
     Inr (h\<lparr>merge_requests :=
              map (\<lambda>m. if MergeRequest.RepoID m = repoID \<and> MergeRequest.ID m = id'
                        then m\<lparr>MergeRequest.Title := title,
                               MergeRequest.Description := description,
                               MergeRequest.UpdatedAt := now\<rparr>
                        else m) (merge_requests h)\<rparr>)"
proof -
  have "List.map_filter (\<lambda>r. if MergeRequest.RepoID r = repoID \<and> MergeRequest.ID r = id'
          then fk_violation h merge_requests_fks (r\<lparr>MergeRequest.Title := title,
                 MergeRequest.Description := description, MergeRequest.UpdatedAt := now\<rparr>)
          else None) (merge_requests h) = []"
  proof (rule map_filter_single)
    fix r assume "r \<in> set (merge_requests h)"
    with assms have "fk_violation h merge_requests_fks r = None"
      by (simp add: referential_integrity_def list_all_iff)
    then show "fk_violation h merge_requests_fks (r\<lparr>MergeRequest.Title := title,
                 MergeRequest.Description := description, MergeRequest.UpdatedAt := now\<rparr>) = None"
      by (simp add: merge_requests_fk_violation_None_iff)
  qed
  then show ?thesis
    by (simp add: mergeRequestStore_UpdateMergeRequest_def ExecUpdate_def)
qed

lemma issueStore_UpdateIssue_zero_rows:
  "issueStore_GetIssueByID h repoID id' = Inl e \<Longrightarrow>
   issueStore_UpdateIssue now h repoID id' title description = Inr h"
  by (simp add: issueStore_UpdateIssue_def issueStore_GetIssueByID_def GetContext_ErrNoRows
        ExecUpdate_zero_rows)

lemma mergeRequestStore_UpdateMergeRequest_zero_rows:
  "mergeRequestStore_GetMergeRequestByID h repoID id' = Inl e \<Longrightarrow>
   mergeRequestStore_UpdateMergeRequest now h repoID id' title description = Inr h"
  by (simp add: mergeRequestStore_UpdateMergeRequest_def
        mergeRequestStore_GetMergeRequestByID_def GetContext_ErrNoRows ExecUpdate_zero_rows)

lemma Backend_UpdateIssue_zero_rows:
  "Repository c (SanitizeRepo c repoName) (db d) = Inr r \<Longrightarrow>
   issueStore_GetIssueByID (db d) (proto_Repository.ID r) issueID = Inl e \<Longrightarrow>
   Backend_UpdateIssue c now d repoName issueID title description = (None, d)"
  by (simp add: Backend_UpdateIssue_def TransactionContext_def issueStore_UpdateIssue_zero_rows)

lemma Backend_UpdateMergeRequest_zero_rows:
  "Repository c (SanitizeRepo c repoName) (db d) = Inr r \<Longrightarrow>
   mergeRequestStore_GetMergeRequestByID (db d) (proto_Repository.ID r) mrID = Inl e \<Longrightarrow>
   Backend_UpdateMergeRequest c now d repoName mrID title description = (None, d)"
  by (simp add: Backend_UpdateMergeRequest_def TransactionContext_def
        mergeRequestStore_UpdateMergeRequest_zero_rows)

lemma example_no_issue_3: "issueStore_GetIssueByID example_db 1 3 = Inl ErrNoRows"
  by (simp add: issueStore_GetIssueByID_def GetContext_def example_db_def issue_open_def
        issue_closed_def)

lemma example_no_mr_3: "mergeRequestStore_GetMergeRequestByID example_db 1 3 = Inl ErrNoRows"
  by (simp add: mergeRequestStore_GetMergeRequestByID_def GetContext_def example_db_def
        mr_open_def mr_merged_def)

text \<open>
  Claim C4, as stated: an update that matches no row fails with NotFound. The code
  returns \<^verbatim>\<open>nil\<close>: there is no issue and no merge request 3 in repository 1, and
  updating them succeeds and changes nothing, in the store and through the facade.
\<close>

theorem update_not_found_counterexample:
  "issueStore_GetIssueByID example_db 1 3 = Inl ErrNoRows \<and>
   issueStore_UpdateIssue 9 example_db 1 3 ''New title'' ''New text'' = Inr example_db \<and>
   mergeRequestStore_GetMergeRequestByID example_db 1 3 = Inl ErrNoRows \<and>
   mergeRequestStore_UpdateMergeRequest 9 example_db 1 3 ''New title'' ''New text'' =
     Inr example_db \<and>
   Backend_UpdateIssue example_collaborators 9 example_backend ''repo'' 3 ''New title''
     ''New text'' = (None, example_backend)"
  using example_no_issue_3 example_no_mr_3 example_Repository
  by (simp add: issueStore_UpdateIssue_zero_rows mergeRequestStore_UpdateMergeRequest_zero_rows
        Backend_UpdateIssue_zero_rows example_backend_def)

text \<open>
  Claim C4, amended: on a database that satisfies its foreign keys, the update of an
  issue or of a merge request always succeeds; it rewrites the title, the description
  and \<^verbatim>\<open>updated_at\<close> of the rows matching the repository and the identifier, and no
  other column and no other row. When no row matches (reading the entity gives
  \<^verbatim>\<open>sql.ErrNoRows\<close>) the database is left as it was and the store and the facade
  return \<^verbatim>\<open>nil\<close>.
\<close>

theorem update_rewrites_title_and_description:
  assumes "referential_integrity h"
  shows "issueStore_UpdateIssue now h repoID id' title description =
           Inr (h\<lparr>issues := map (\<lambda>i. if Issue.RepoID i = repoID \<and> Issue.ID i = id'
                                  then i\<lparr>Issue.Title := title, Issue.Description := description,
                                         Issue.UpdatedAt := now\<rparr>
                                  else i) (issues h)\<rparr>) \<and>
         mergeRequestStore_UpdateMergeRequest now h repoID id' title description =
           Inr (h\<lparr>merge_requests :=
              map (\<lambda>m. if MergeRequest.RepoID m = repoID \<and> MergeRequest.ID m = id'
                        then m\<lparr>MergeRequest.Title := title,
                               MergeRequest.Description := description,
                               MergeRequest.UpdatedAt := now\<rparr>
                        else m) (merge_requests h)\<rparr>) \<and>
         (issueStore_GetIssueByID h repoID id' = Inl ErrNoRows \<longrightarrow>
            issueStore_UpdateIssue now h repoID id' title description = Inr h) \<and>
         (mergeRequestStore_GetMergeRequestByID h repoID id' = Inl ErrNoRows \<longrightarrow>
            mergeRequestStore_UpdateMergeRequest now h repoID id' title description = Inr h) \<and>
         (Repository c (SanitizeRepo c repoName) (db d) = Inr r \<longrightarrow>
          issueStore_GetIssueByID (db d) (proto_Repository.ID r) id' = Inl ErrNoRows \<longrightarrow>
            Backend_UpdateIssue c now d repoName id' title description = (None, d)) \<and>
         (Repository c (SanitizeRepo c repoName) (db d) = Inr r \<longrightarrow>
          mergeRequestStore_GetMergeRequestByID (db d) (proto_Repository.ID r) id' = Inl ErrNoRows \<longrightarrow>
            Backend_UpdateMergeRequest c now d repoName id' title description = (None, d))"
proof (intro conjI impI)
  show "issueStore_UpdateIssue now h repoID id' title description =
           Inr (h\<lparr>issues := map (\<lambda>i. if Issue.RepoID i = repoID \<and> Issue.ID i = id'
                                  then i\<lparr>Issue.Title := title, Issue.Description := description,
                                         Issue.UpdatedAt := now\<rparr>
                                  else i) (issues h)\<rparr>)"
    by (rule issueStore_UpdateIssue_ok [OF assms])
  show "mergeRequestStore_UpdateMergeRequest now h repoID id' title description =
           Inr (h\<lparr>merge_requests :=
              map (\<lambda>m. if MergeRequest.RepoID m = repoID \<and> MergeRequest.ID m = id'
                        then m\<lparr>MergeRequest.Title := title,
                               MergeRequest.Description := description,
                               MergeRequest.UpdatedAt := now\<rparr>
                        else m) (merge_requests h)\<rparr>)"
    by (rule mergeRequestStore_UpdateMergeRequest_ok [OF assms])
qed (simp_all add: issueStore_UpdateIssue_zero_rows
       mergeRequestStore_UpdateMergeRequest_zero_rows
       Backend_UpdateIssue_zero_rows Backend_UpdateMergeRequest_zero_rows)

theorem update_rewrites_title_and_description_witness:
  "referential_integrity example_db \<and>
   issueStore_UpdateIssue 9 example_db 1 1 ''Fix the bug'' ''Details'' =
     Inr (example_db\<lparr>issues :=
            [issue_open\<lparr>Issue.Title := ''Fix the bug'', Issue.Description := ''Details'',
                         Issue.UpdatedAt := 9\<rparr>, issue_closed]\<rparr>) \<and>
   issueStore_GetIssueByID example_db 1 3 = Inl ErrNoRows \<and>
   issueStore_UpdateIssue 9 example_db 1 3 ''Fix the bug'' ''Details'' = Inr example_db \<and>
   mergeRequestStore_GetMergeRequestByID example_db 1 3 = Inl ErrNoRows \<and>
   mergeRequestStore_UpdateMergeRequest 9 example_db 1 3 ''Fix the bug'' ''Details'' =
     Inr example_db \<and>
   Backend_UpdateIssue example_collaborators 9 example_backend ''repo'' 3 ''Fix the bug''
     ''Details'' = (None, example_backend) \<and>
   Backend_UpdateMergeRequest example_collaborators 9 example_backend ''repo'' 3
     ''Fix the bug'' ''Details'' = (None, example_backend)"
proof -
  have i: "map (\<lambda>i. if Issue.RepoID i = 1 \<and> Issue.ID i = 1
                     then i\<lparr>Issue.Title := ''Fix the bug'', Issue.Description := ''Details'',
                            Issue.UpdatedAt := 9\<rparr> else i) (issues example_db) =
           [issue_open\<lparr>Issue.Title := ''Fix the bug'', Issue.Description := ''Details'',
                         Issue.UpdatedAt := 9\<rparr>, issue_closed]"
    by (simp add: example_db_def issue_open_def issue_closed_def)
  have dbb: "db example_backend = example_db"
    by (simp add: example_backend_def)
  note t1 = update_rewrites_title_and_description [OF example_db_integrity, of 9 1 1
      "''Fix the bug''" "''Details''" example_collaborators "''repo''" example_backend
      "\<lparr>proto_Repository.ID = 1, proto_Repository.Name = ''repo''\<rparr>"]
  note t3 = update_rewrites_title_and_description [OF example_db_integrity, of 9 1 3
      "''Fix the bug''" "''Details''" example_collaborators "''repo''" example_backend
      "\<lparr>proto_Repository.ID = 1, proto_Repository.Name = ''repo''\<rparr>"]
  have u1: "issueStore_UpdateIssue 9 example_db 1 1 ''Fix the bug'' ''Details'' =
     Inr (example_db\<lparr>issues :=
            [issue_open\<lparr>Issue.Title := ''Fix the bug'', Issue.Description := ''Details'',
                         Issue.UpdatedAt := 9\<rparr>, issue_closed]\<rparr>)"
    using t1 i by simp
  have u3: "issueStore_UpdateIssue 9 example_db 1 3 ''Fix the bug'' ''Details'' =
              Inr example_db \<and>
            mergeRequestStore_UpdateMergeRequest 9 example_db 1 3 ''Fix the bug'' ''Details'' =
              Inr example_db \<and>
            Backend_UpdateIssue example_collaborators 9 example_backend ''repo'' 3
              ''Fix the bug'' ''Details'' = (None, example_backend) \<and>
            Backend_UpdateMergeRequest example_collaborators 9 example_backend ''repo'' 3
              ''Fix the bug'' ''Details'' = (None, example_backend)"
    using t3 [THEN conjunct2, THEN conjunct2] example_no_issue_3 example_no_mr_3
      example_Repository
    by (simp add: dbb)
  show ?thesis
    using u1 u3 example_db_integrity example_no_issue_3 example_no_mr_3 by simp
qed

section \<open>Create\<close>

lemma issueStore_CreateIssue_ok:
  "repoID \<in> set (repos h) \<Longrightarrow> authorID \<in> set (users h) \<Longrightarrow>
   issueStore_CreateIssue now h repoID authorID title description =
     Inr (issues_seq h + 1,
          h\<lparr>issues := issues h @
                 [\<lparr>Issue.ID = issues_seq h + 1, Issue.RepoID = repoID, Issue.Title = title,
                   Issue.Description = description, Issue.State = IssueStateOpen,
                   Issue.AuthorID = authorID, Issue.ClosedBy = None, Issue.ClosedAt = None,
                   Issue.CreatedAt = now, Issue.UpdatedAt = now\<rparr>],
             issues_seq := issues_seq h + 1\<rparr>)"
proof -
  assume a: "repoID \<in> set (repos h)" "authorID \<in> set (users h)"
  have "fk_violation h issues_fks
          \<lparr>Issue.ID = issues_seq h + 1, Issue.RepoID = repoID, Issue.Title = title,
           Issue.Description = description, Issue.State = IssueStateOpen,
           Issue.AuthorID = authorID, Issue.ClosedBy = None, Issue.ClosedAt = None,
           Issue.CreatedAt = now, Issue.UpdatedAt = now\<rparr> = None"
    using a by (simp add: issues_fk_violation_None_iff)
  then show ?thesis
    by (simp add: issueStore_CreateIssue_def Let_def)
qed

lemma mergeRequestStore_CreateMergeRequest_ok:
  "repoID \<in> set (repos h) \<Longrightarrow> authorID \<in> set (users h) \<Longrightarrow>
   mergeRequestStore_CreateMergeRequest now h repoID authorID title description
       sourceBranch targetBranch =
     Inr (merge_requests_seq h + 1,
          h\<lparr>merge_requests := merge_requests h @
                 [\<lparr>MergeRequest.ID = merge_requests_seq h + 1, MergeRequest.RepoID = repoID,
                   MergeRequest.Title = title, MergeRequest.Description = description,
                   MergeRequest.SourceBranch = sourceBranch,
                   MergeRequest.TargetBranch = targetBranch,
                   MergeRequest.State = MergeRequestStateOpen,
                   MergeRequest.AuthorID = authorID,
                   MergeRequest.MergedBy = None, MergeRequest.MergedAt = None,
                   MergeRequest.ClosedBy = None, MergeRequest.ClosedAt = None,
                   MergeRequest.CreatedAt = now, MergeRequest.UpdatedAt = now\<rparr>],
             merge_requests_seq := merge_requests_seq h + 1\<rparr>)"
proof -
  assume a: "repoID \<in> set (repos h)" "authorID \<in> set (users h)"
  have "fk_violation h merge_requests_fks
          \<lparr>MergeRequest.ID = merge_requests_seq h + 1, MergeRequest.RepoID = repoID,
           MergeRequest.Title = title, MergeRequest.Description = description,
           MergeRequest.SourceBranch = sourceBranch,
           MergeRequest.TargetBranch = targetBranch,
           MergeRequest.State = MergeRequestStateOpen,
           MergeRequest.AuthorID = authorID,
           MergeRequest.MergedBy = None, MergeRequest.MergedAt = None,
           MergeRequest.ClosedBy = None, MergeRequest.ClosedAt = None,
           MergeRequest.CreatedAt = now, MergeRequest.UpdatedAt = now\<rparr> = None"
    using a by (simp add: merge_requests_fk_violation_None_iff)
  then show ?thesis
    by (simp add: mergeRequestStore_CreateMergeRequest_def Let_def)
qed

lemma GetContext_append_new:
  "filter key rows = [] \<Longrightarrow> key r \<Longrightarrow> GetContext key (rows @ [r]) = Inr r"
  by (simp add: GetContext_def)

lemma issues_seq_fresh:
  "sequences_ahead h \<Longrightarrow> issues_seq h + 1 \<notin> Issue.ID ` set (issues h)"
  by (auto simp: sequences_ahead_def list_all_iff)

lemma merge_requests_seq_fresh:
  "sequences_ahead h \<Longrightarrow> merge_requests_seq h + 1 \<notin> MergeRequest.ID ` set (merge_requests h)"
  by (auto simp: sequences_ahead_def list_all_iff)

lemma example_db_sequences: "sequences_ahead example_db"
  by (simp add: sequences_ahead_def example_db_def issue_open_def issue_closed_def
        mr_open_def mr_merged_def)

lemma issueStore_GetIssueByID_created:
  assumes "sequences_ahead h"
  shows "issueStore_GetIssueByID
           (h\<lparr>issues := issues h @
                 [\<lparr>Issue.ID = issues_seq h + 1, Issue.RepoID = repoID, Issue.Title = title,
                   Issue.Description = description, Issue.State = IssueStateOpen,
                   Issue.AuthorID = authorID, Issue.ClosedBy = None, Issue.ClosedAt = None,
                   Issue.CreatedAt = now, Issue.UpdatedAt = now\<rparr>],
              issues_seq := issues_seq h + 1\<rparr>) repoID (issues_seq h + 1) =
         Inr \<lparr>Issue.ID = issues_seq h + 1, Issue.RepoID = repoID, Issue.Title = title,
               Issue.Description = description, Issue.State = IssueStateOpen,
               Issue.AuthorID = authorID, Issue.ClosedBy = None, Issue.ClosedAt = None,
               Issue.CreatedAt = now, Issue.UpdatedAt = now\<rparr>"
proof -
  have "filter (\<lambda>i. Issue.RepoID i = repoID \<and> Issue.ID i = issues_seq h + 1) (issues h) = []"
    using issues_seq_fresh [OF assms] by (force simp: filter_empty_conv)
  then show ?thesis
    by (simp add: issueStore_GetIssueByID_def GetContext_append_new)
qed

lemma mergeRequestStore_GetMergeRequestByID_created:
  assumes "sequences_ahead h"
  shows "mergeRequestStore_GetMergeRequestByID
           (h\<lparr>merge_requests := merge_requests h @
                 [\<lparr>MergeRequest.ID = merge_requests_seq h + 1, MergeRequest.RepoID = repoID,
                   MergeRequest.Title = title, MergeRequest.Description = description,
                   MergeRequest.SourceBranch = sourceBranch,
                   MergeRequest.TargetBranch = targetBranch,
                   MergeRequest.State = MergeRequestStateOpen,
                   MergeRequest.AuthorID = authorID,
                   MergeRequest.MergedBy = None, MergeRequest.MergedAt = None,
                   MergeRequest.ClosedBy = None, MergeRequest.ClosedAt = None,
                   MergeRequest.CreatedAt = now, MergeRequest.UpdatedAt = now\<rparr>],
             merge_requests_seq := merge_requests_seq h + 1\<rparr>) repoID
           (merge_requests_seq h + 1) =
         Inr \<lparr>MergeRequest.ID = merge_requests_seq h + 1, MergeRequest.RepoID = repoID,
               MergeRequest.Title = title, MergeRequest.Description = description,
               MergeRequest.SourceBranch = sourceBranch,
               MergeRequest.TargetBranch = targetBranch,
               MergeRequest.State = MergeRequestStateOpen,
               MergeRequest.AuthorID = authorID,
               MergeRequest.MergedBy = None, MergeRequest.MergedAt = None,
               MergeRequest.ClosedBy = None, MergeRequest.ClosedAt = None,
               MergeRequest.CreatedAt = now, MergeRequest.UpdatedAt = now\<rparr>"
proof -
  have "filter (\<lambda>m. MergeRequest.RepoID m = repoID \<and>
                     MergeRequest.ID m = merge_requests_seq h + 1) (merge_requests h) = []"
    using merge_requests_seq_fresh [OF assms] by (force simp: filter_empty_conv)
  then show ?thesis
    by (simp add: mergeRequestStore_GetMergeRequestByID_def GetContext_append_new)
qed

lemma Backend_CreateIssue_ok:
  assumes "Repository c (SanitizeRepo c repoName) (db d) = Inr r"
      and "proto_Repository.ID r \<in> set (repos (db d))"
      and "proto_User.ID user \<in> set (users (db d))"
  shows "Backend_CreateIssue c now (Some user) d repoName title description =
     (Inr (issues_seq (db d) + 1),
      d\<lparr>db := (db d)\<lparr>issues := issues (db d) @
                 [\<lparr>Issue.ID = issues_seq (db d) + 1, Issue.RepoID = proto_Repository.ID r,
                   Issue.Title = title, Issue.Description = description,
                   Issue.State = IssueStateOpen, Issue.AuthorID = proto_User.ID user,
                   Issue.ClosedBy = None, Issue.ClosedAt = None,
                   Issue.CreatedAt = now, Issue.UpdatedAt = now\<rparr>],
             issues_seq := issues_seq (db d) + 1\<rparr>\<rparr>)"
  using assms(1) issueStore_CreateIssue_ok [OF assms(2,3), of now title description]
  by (simp add: Backend_CreateIssue_def TransactionContext_def)

lemma example_db_parts:
  "issues example_db = [issue_open, issue_closed]" "issues_seq example_db = 2"
  "merge_requests example_db = [mr_open, mr_merged]" "merge_requests_seq example_db = 2"
  "repos example_db = [1]" "users example_db = [7, 8]"
  "issue_dependencies example_db = []" "db example_backend = example_db"
  "fs example_backend = []"
  by (simp_all add: example_db_def example_backend_def)

text \<open>
  Claim C5, as stated: a create with the empty title fails with InvalidArgument and
  inserts nothing. The code inserts the row: creating an issue with the empty title in
  repository 1 returns the new identifier 3, in the store and through the facade.
\<close>

theorem create_empty_title_counterexample:
  "issueStore_CreateIssue 9 example_db 1 7 '''' ''text'' =
     Inr (3, example_db\<lparr>issues := [issue_open, issue_closed,
               \<lparr>Issue.ID = 3, Issue.RepoID = 1, Issue.Title = '''',
                Issue.Description = ''text'', Issue.State = IssueStateOpen,
                Issue.AuthorID = 7, Issue.ClosedBy = None, Issue.ClosedAt = None,
                Issue.CreatedAt = 9, Issue.UpdatedAt = 9\<rparr>],
             issues_seq := 3\<rparr>) \<and>
   fst (Backend_CreateIssue example_collaborators 9 (Some alice) example_backend ''repo''
          '''' ''text'') = Inr 3"
proof -
  have "issueStore_CreateIssue 9 example_db 1 7 '''' ''text'' =
     Inr (3, example_db\<lparr>issues := [issue_open, issue_closed,
               \<lparr>Issue.ID = 3, Issue.RepoID = 1, Issue.Title = '''',
                Issue.Description = ''text'', Issue.State = IssueStateOpen,
                Issue.AuthorID = 7, Issue.ClosedBy = None, Issue.ClosedAt = None,
                Issue.CreatedAt = 9, Issue.UpdatedAt = 9\<rparr>],
             issues_seq := 3\<rparr>)"
    using issueStore_CreateIssue_ok [of 1 example_db 7 9 "''''" "''text''"]
    by (simp add: example_db_parts)
  moreover have "fst (Backend_CreateIssue example_collaborators 9 (Some alice) example_backend
          ''repo'' '''' ''text'') = Inr 3"
    using example_Repository
      Backend_CreateIssue_ok [of example_collaborators "''repo''" example_backend
        "\<lparr>proto_Repository.ID = 1, proto_Repository.Name = ''repo''\<rparr>" alice 9 "''''"
        "''text''"]
    by (simp add: example_db_parts alice_def)
  ultimately show ?thesis by simp
qed

text \<open>
  Claim C5, amended: for every title, the empty one included, creating an issue for an
  existing repository and an existing author inserts one row with the state open, no
  closing user or time, and \<^verbatim>\<open>created_at\<close> and \<^verbatim>\<open>updated_at\<close> the current time, and
  returns the generated identifier, which no earlier issue has and under which the
  new issue is read back; the facade returns the same identifier.
\<close>

theorem create_accepts_any_title:
  assumes "repoID \<in> set (repos h)" and "authorID \<in> set (users h)" and "sequences_ahead h"
  shows "issueStore_CreateIssue now h repoID authorID title description =
           Inr (issues_seq h + 1,
                h\<lparr>issues := issues h @
                 [\<lparr>Issue.ID = issues_seq h + 1, Issue.RepoID = repoID, Issue.Title = title,
                   Issue.Description = description, Issue.State = IssueStateOpen,
                   Issue.AuthorID = authorID, Issue.ClosedBy = None, Issue.ClosedAt = None,
                   Issue.CreatedAt = now, Issue.UpdatedAt = now\<rparr>],
                  issues_seq := issues_seq h + 1\<rparr>) \<and>
         issues_seq h + 1 \<notin> Issue.ID ` set (issues h) \<and>
         issueStore_GetIssueByID
           (h\<lparr>issues := issues h @
                 [\<lparr>Issue.ID = issues_seq h + 1, Issue.RepoID = repoID, Issue.Title = title,
                   Issue.Description = description, Issue.State = IssueStateOpen,
                   Issue.AuthorID = authorID, Issue.ClosedBy = None, Issue.ClosedAt = None,
                   Issue.CreatedAt = now, Issue.UpdatedAt = now\<rparr>],
              issues_seq := issues_seq h + 1\<rparr>) repoID (issues_seq h + 1) =
           Inr \<lparr>Issue.ID = issues_seq h + 1, Issue.RepoID = repoID, Issue.Title = title,
                 Issue.Description = description, Issue.State = IssueStateOpen,
                 Issue.AuthorID = authorID, Issue.ClosedBy = None, Issue.ClosedAt = None,
                 Issue.CreatedAt = now, Issue.UpdatedAt = now\<rparr> \<and>
         (Repository c (SanitizeRepo c repoName) (db d) = Inr r \<longrightarrow>
          db d = h \<longrightarrow> proto_Repository.ID r = repoID \<longrightarrow> proto_User.ID user = authorID \<longrightarrow>
          fst (Backend_CreateIssue c now (Some user) d repoName title description) =
            Inr (issues_seq h + 1))"
proof (intro conjI impI)
  show "issues_seq h + 1 \<notin> Issue.ID ` set (issues h)"
    using assms(3) by (rule issues_seq_fresh)
next
  assume "Repository c (SanitizeRepo c repoName) (db d) = Inr r" "db d = h"
    "proto_Repository.ID r = repoID" "proto_User.ID user = authorID"
  then show "fst (Backend_CreateIssue c now (Some user) d repoName title description) =
            Inr (issues_seq h + 1)"
    using assms(1,2) Backend_CreateIssue_ok [of c repoName d r user now title description]
    by simp
qed (simp_all only: issueStore_CreateIssue_ok [OF assms(1,2)]
       issueStore_GetIssueByID_created [OF assms(3)])

theorem create_accepts_any_title_witness:
  "1 \<in> set (repos example_db) \<and> 7 \<in> set (users example_db) \<and> sequences_ahead example_db \<and>
   issueStore_CreateIssue 9 example_db 1 7 '''' ''text'' =
     Inr (3, example_db\<lparr>issues := [issue_open, issue_closed,
               \<lparr>Issue.ID = 3, Issue.RepoID = 1, Issue.Title = '''',
                Issue.Description = ''text'', Issue.State = IssueStateOpen,
                Issue.AuthorID = 7, Issue.ClosedBy = None, Issue.ClosedAt = None,
                Issue.CreatedAt = 9, Issue.UpdatedAt = 9\<rparr>],
             issues_seq := 3\<rparr>) \<and>
   3 \<notin> Issue.ID ` set (issues example_db) \<and>
   fst (Backend_CreateIssue example_collaborators 9 (Some alice) example_backend ''repo''
          '''' ''text'') = Inr 3"
proof -
  have a: "1 \<in> set (repos example_db)" and b: "7 \<in> set (users example_db)"
    by (simp_all add: example_db_parts)
  note t = create_accepts_any_title [OF a b example_db_sequences, of 9 "''''" "''text''"
      example_collaborators "''repo''" example_backend
      "\<lparr>proto_Repository.ID = 1, proto_Repository.Name = ''repo''\<rparr>" alice]
  have c: "issueStore_CreateIssue 9 example_db 1 7 '''' ''text'' =
     Inr (3, example_db\<lparr>issues := [issue_open, issue_closed,
               \<lparr>Issue.ID = 3, Issue.RepoID = 1, Issue.Title = '''',
                Issue.Description = ''text'', Issue.State = IssueStateOpen,
                Issue.AuthorID = 7, Issue.ClosedBy = None, Issue.ClosedAt = None,
                Issue.CreatedAt = 9, Issue.UpdatedAt = 9\<rparr>],
             issues_seq := 3\<rparr>)"
    using t [THEN conjunct1] by (simp add: example_db_parts)
  have d: "3 \<notin> Issue.ID ` set (issues example_db)"
    using t [THEN conjunct2, THEN conjunct1] by (simp add: example_db_parts)
  have e: "fst (Backend_CreateIssue example_collaborators 9 (Some alice) example_backend
          ''repo'' '''' ''text'') = Inr 3"
    using t [THEN conjunct2, THEN conjunct2, THEN conjunct2] example_Repository
    by (simp add: example_db_parts alice_def)
  show ?thesis using a b c d e example_db_sequences by simp
qed

section \<open>Self-dependencies\<close>

lemma filter_key_le_1:
  "distinct (map f xs) \<Longrightarrow> length (filter (\<lambda>x. P x \<and> f x = k) xs) \<le> 1"
proof (induction xs)
  case Nil
  then show ?case by simp
next
  case (Cons x xs)
  show ?case
  proof (cases "f x = k")
    case True
    with Cons.prems have "k \<notin> f ` set xs" by simp
    then have "\<forall>y\<in>set xs. f y \<noteq> k" by blast
    then have "filter (\<lambda>x. P x \<and> f x = k) xs = []"
      by (simp add: filter_empty_conv)
    then show ?thesis by simp
  next
    case False
    with Cons show ?thesis by simp
  qed
qed

text \<open>
  With the identifiers of the issues unique (the primary key), the count of the rows
  with one of two equal identifiers is at most one, never two: the dependency of an
  issue on itself is answered with \<^verbatim>\<open>sql.ErrNoRows\<close> also when the issue exists.
\<close>

lemma issueStore_AddIssueDependency_self:
  assumes "distinct (map Issue.ID (issues h))"
  shows "issueStore_AddIssueDependency now h repoID issueID issueID = Inl ErrNoRows"
proof -
  have "length (filter (\<lambda>i. Issue.RepoID i = repoID \<and> Issue.ID i = issueID) (issues h)) \<le> 1"
    using assms by (rule filter_key_le_1)
  then have "Count (\<lambda>i. Issue.RepoID i = repoID \<and> (Issue.ID i = issueID \<or> Issue.ID i = issueID))
               (issues h) \<noteq> 2"
    by (simp add: Count_def)
  then show ?thesis
    by (simp add: issueStore_AddIssueDependency_def Let_def)
qed

lemma issueStore_AddIssueDependency_self_fails:
  "issueStore_AddIssueDependency now h repoID issueID issueID = Inl ErrNoRows \<or>
   issueStore_AddIssueDependency now h repoID issueID issueID =
     Inl (ErrConstraint ''no_self_dependency'')"
  by (simp add: issueStore_AddIssueDependency_def Let_def issue_dependencies_constraints_def)

lemma issueStore_AddIssueDependency_self_missing:
  "issueStore_GetIssueByID h repoID issueID = Inl e \<Longrightarrow>
   issueStore_AddIssueDependency now h repoID issueID issueID = Inl ErrNoRows"
  by (simp add: issueStore_AddIssueDependency_def Let_def Count_def issueStore_GetIssueByID_def
        GetContext_ErrNoRows)

text \<open>
  Claim C6, as stated: adding the dependency of an issue on itself fails with
  InvalidArgument, as opposed to NotFound or success, whether the issue exists or not.
  The code fails with \<^verbatim>\<open>sql.ErrNoRows\<close>, the error of a row that is not found: for
  issue 5, which repository 1 does not have, and also for issue 1, which it has; the
  facade returns what \<^verbatim>\<open>db.WrapError\<close> makes of \<^verbatim>\<open>sql.ErrNoRows\<close>.
\<close>

theorem self_dependency_invalid_argument_counterexample:
  "issueStore_GetIssueByID example_db 1 5 = Inl ErrNoRows \<and>
   issueStore_AddIssueDependency 9 example_db 1 5 5 = Inl ErrNoRows \<and>
   issueStore_GetIssueByID example_db 1 1 = Inr issue_open \<and>
   issueStore_AddIssueDependency 9 example_db 1 1 1 = Inl ErrNoRows \<and>
   Backend_AddIssueDependency example_collaborators 9 example_backend ''repo'' 5 5 =
     (Some ErrNoRows, example_backend)"
proof -
  have g: "issueStore_GetIssueByID example_db 1 5 = Inl ErrNoRows"
    by (simp add: issueStore_GetIssueByID_def GetContext_def example_db_parts issue_open_def
          issue_closed_def)
  have a: "issueStore_AddIssueDependency 9 example_db 1 1 1 = Inl ErrNoRows"
    by (simp add: issueStore_AddIssueDependency_def Count_def example_db_parts issue_open_def
          issue_closed_def)
  have b: "issueStore_AddIssueDependency 9 example_db 1 5 5 = Inl ErrNoRows"
    by (simp add: issueStore_AddIssueDependency_def Count_def example_db_parts issue_open_def
          issue_closed_def)
  have c: "Backend_AddIssueDependency example_collaborators 9 example_backend ''repo'' 5 5 =
     (Some ErrNoRows, example_backend)"
    using b example_Repository
    by (simp add: Backend_AddIssueDependency_def TransactionContext_def example_db_parts
          example_collaborators_def)
  show ?thesis using g a b c example_issue_open by simp
qed

text \<open>
  Claim C6, amended: adding the dependency of an issue on itself never succeeds and
  inserts nothing, for every repository and every issue: the store answers with
  \<^verbatim>\<open>sql.ErrNoRows\<close> or with the violation of the constraint
  \<^verbatim>\<open>no_self_dependency\<close>. When the repository has no such issue, the check that the
  issues exist comes first and the answer is \<^verbatim>\<open>sql.ErrNoRows\<close>, which the facade
  hands to \<^verbatim>\<open>db.WrapError\<close>.
\<close>

theorem self_dependency_never_inserted:
  "(issueStore_AddIssueDependency now h repoID issueID issueID = Inl ErrNoRows \<or>
    issueStore_AddIssueDependency now h repoID issueID issueID =
      Inl (ErrConstraint ''no_self_dependency'')) \<and>
   (issueStore_GetIssueByID h repoID issueID = Inl ErrNoRows \<longrightarrow>
      issueStore_AddIssueDependency now h repoID issueID issueID = Inl ErrNoRows) \<and>
   (Repository c (SanitizeRepo c repoName) (db d) = Inr r \<longrightarrow>
    issueStore_GetIssueByID (db d) (proto_Repository.ID r) issueID = Inl ErrNoRows \<longrightarrow>
      Backend_AddIssueDependency c now d repoName issueID issueID =
        (Some (WrapError c ErrNoRows), d))"
  using issueStore_AddIssueDependency_self_fails [of now h repoID issueID]
  by (simp add: issueStore_AddIssueDependency_self_missing Backend_AddIssueDependency_def
        TransactionContext_def)

theorem self_dependency_never_inserted_witness:
  "issueStore_GetIssueByID example_db 1 5 = Inl ErrNoRows \<and>
   issueStore_AddIssueDependency 9 example_db 1 5 5 = Inl ErrNoRows \<and>
   Repository example_collaborators (SanitizeRepo example_collaborators ''repo'')
     (db example_backend) =
     Inr \<lparr>proto_Repository.ID = 1, proto_Repository.Name = ''repo''\<rparr> \<and>
   Backend_AddIssueDependency example_collaborators 9 example_backend ''repo'' 5 5 =
     (Some ErrNoRows, example_backend)"
proof -
  have g: "issueStore_GetIssueByID example_db 1 5 = Inl ErrNoRows"
    by (simp add: issueStore_GetIssueByID_def GetContext_def example_db_parts issue_open_def
          issue_closed_def)
  have r: "Repository example_collaborators (SanitizeRepo example_collaborators ''repo'')
             (db example_backend) =
           Inr \<lparr>proto_Repository.ID = 1, proto_Repository.Name = ''repo''\<rparr>"
    using example_Repository by (simp add: example_db_parts)
  have w: "WrapError example_collaborators ErrNoRows = ErrNoRows"
    by (simp add: example_collaborators_def)
  note t = self_dependency_never_inserted [of 9 example_db 1 5 example_collaborators "''repo''"
      example_backend "\<lparr>proto_Repository.ID = 1, proto_Repository.Name = ''repo''\<rparr>"]
  have a: "issueStore_AddIssueDependency 9 example_db 1 5 5 = Inl ErrNoRows"
    using t [THEN conjunct2, THEN conjunct1] g by simp
  have b: "Backend_AddIssueDependency example_collaborators 9 example_backend ''repo'' 5 5 =
     (Some ErrNoRows, example_backend)"
    using t [THEN conjunct2, THEN conjunct2] r g by (simp add: example_db_parts w)
  show ?thesis using g a r b by simp
qed

section \<open>Merge execution\<close>

lemma example_performMerge:
  "performMerge example_collaborators ''/repos/repo'' ''feature'' ''main'' author [] =
     (None, [[''checkout'', ''main''],
             [''merge'', ''--no-ff'', ''-m'',
              ''Merge branch '' @ [CHR 0x27] @ ''feature'' @ [CHR 0x27] @ '' into '' @
                [CHR 0x27] @ ''main'' @ [CHR 0x27],
              ''feature'']])"
  by (simp add: performMerge_def commitMsg_def example_collaborators_def)

lemma example_mr_open:
  "mergeRequestStore_GetMergeRequestByID example_db 1 1 = Inr mr_open"
  by (simp add: mergeRequestStore_GetMergeRequestByID_def GetContext_def example_db_parts
        mr_open_def mr_merged_def)

lemma example_Backend_GetMergeRequest:
  "Backend_GetMergeRequest example_collaborators example_backend
     (SanitizeRepo example_collaborators ''repo'') 1 = Inr mr_open"
  using example_mr_open
  by (simp add: Backend_GetMergeRequest_def TransactionContext_def example_db_parts
        example_collaborators_def)

lemma example_Open:
  "Open example_collaborators \<lparr>proto_Repository.ID = 1, proto_Repository.Name = ''repo''\<rparr>
     (fs example_backend) = Inr ''/repos/repo''"
  by (simp add: example_collaborators_def)

lemma mr_open_fields:
  "MergeRequest.State mr_open = MergeRequestStateOpen"
  "MergeRequest.SourceBranch mr_open = ''feature''"
  "MergeRequest.TargetBranch mr_open = ''main''"
  by (simp_all add: mr_open_def MergeRequestStateOpen_def)

lemma Backend_MergeMergeRequest_interleaved_merged:
  assumes rep: "Repository c (SanitizeRepo c repoName) (db d) = Inr r"
      and get: "Backend_GetMergeRequest c d (SanitizeRepo c repoName) mrID = Inr mr"
      and opn: "MergeRequest.State mr = MergeRequestStateOpen"
      and gro: "Open c r (fs d) = Inr gr"
      and mrg: "performMerge c gr (MergeRequest.SourceBranch mr) (MergeRequest.TargetBranch mr)
                  (proto_User.Username user) (fs d) = (None, g)"
  shows "Backend_MergeMergeRequest_interleaved c now env (Some user) d repoName mrID =
           (case mergeRequestStore_MergeMergeRequest now (env (db d)) (proto_Repository.ID r)
                   mrID (proto_User.ID user) of
              Inl err \<Rightarrow> (Some (WrapError c err), \<lparr>db = env (db d), fs = g\<rparr>)
            | Inr h \<Rightarrow> (None, \<lparr>db = h, fs = g\<rparr>))"
  using assms
  by (simp add: Backend_MergeMergeRequest_interleaved_def Let_def TransactionContext_def
           split: sum.splits)

lemma example_bob_closes:
  "bob_closes example_db =
     example_db\<lparr>merge_requests :=
       [mr_open\<lparr>MergeRequest.State := MergeRequestStateClosed,
                 MergeRequest.ClosedBy := Some 8, MergeRequest.ClosedAt := Some 8,
                 MergeRequest.UpdatedAt := 8\<rparr>, mr_merged]\<rparr>"
proof -
  have "fk_violation example_db merge_requests_fks
          (mr_open\<lparr>MergeRequest.State := MergeRequestStateClosed,
                 MergeRequest.ClosedBy := Some 8, MergeRequest.ClosedAt := Some 8,
                 MergeRequest.UpdatedAt := 8\<rparr>) = None"
    by (simp add: merge_requests_fk_violation_None_iff example_db_parts mr_open_def)
  then show ?thesis
    by (simp add: bob_closes_def mergeRequestStore_CloseMergeRequest_def ExecUpdate_def
          List.map_filter_simps example_db_parts mr_open_def mr_merged_def
          MergeRequestStateOpen_def)
qed

lemma example_bob_closes_zero:
  "filter (\<lambda>m. MergeRequest.RepoID m = 1 \<and> MergeRequest.ID m = 1 \<and>
                MergeRequest.State m = MergeRequestStateOpen)
     (merge_requests (bob_closes example_db)) = []"
  by (simp add: example_bob_closes mr_open_def mr_merged_def MergeRequestStateOpen_def
        MergeRequestStateClosed_def)

text \<open>
  Claim C2, as stated: when git has merged and the guarded transition to the merged
  state then matches no row, the operation returns a distinct failure saying that the
  merge was not recorded. The code returns \<^verbatim>\<open>nil\<close>: Alice merges the open merge
  request 1 while Bob closes it between her read and her write; git runs the checkout
  and the merge, the row stays closed by Bob, and Alice's call reports success.
\<close>

theorem merge_unrecorded_counterexample:
  "Backend_MergeMergeRequest_interleaved example_collaborators 9 bob_closes (Some alice)
     example_backend ''repo'' 1 =
   (None,
    \<lparr>db = example_db\<lparr>merge_requests :=
            [mr_open\<lparr>MergeRequest.State := MergeRequestStateClosed,
                      MergeRequest.ClosedBy := Some 8, MergeRequest.ClosedAt := Some 8,
                      MergeRequest.UpdatedAt := 8\<rparr>, mr_merged]\<rparr>,
     fs = [[''checkout'', ''main''],
           [''merge'', ''--no-ff'', ''-m'',
            ''Merge branch '' @ [CHR 0x27] @ ''feature'' @ [CHR 0x27] @ '' into '' @
              [CHR 0x27] @ ''main'' @ [CHR 0x27],
            ''feature'']]\<rparr>)"
proof -
  have m: "performMerge example_collaborators ''/repos/repo''
             (MergeRequest.SourceBranch mr_open) (MergeRequest.TargetBranch mr_open)
             (proto_User.Username alice) (fs example_backend) =
           (None, [[''checkout'', ''main''],
             [''merge'', ''--no-ff'', ''-m'',
              ''Merge branch '' @ [CHR 0x27] @ ''feature'' @ [CHR 0x27] @ '' into '' @
                [CHR 0x27] @ ''main'' @ [CHR 0x27],
              ''feature'']])"
    using example_performMerge by (simp add: mr_open_fields example_db_parts)
  have r: "Repository example_collaborators (SanitizeRepo example_collaborators ''repo'')
             (db example_backend) =
           Inr \<lparr>proto_Repository.ID = 1, proto_Repository.Name = ''repo''\<rparr>"
    using example_Repository by (simp add: example_db_parts)
  have z: "mergeRequestStore_MergeMergeRequest 9 (bob_closes (db example_backend)) 1 1
             (proto_User.ID alice) = Inr (bob_closes example_db)"
    using mergeRequestStore_MergeMergeRequest_zero_rows [OF example_bob_closes_zero]
    by (simp add: example_db_parts)
  show ?thesis
    using Backend_MergeMergeRequest_interleaved_merged
      [OF r example_Backend_GetMergeRequest mr_open_fields(1) example_Open m, of 9 bob_closes]
      z example_bob_closes
    by simp
qed

text \<open>
  Claim C2, amended: when the read finds the merge request open, git merges without
  error, and the guarded transition then matches no row of the database as the other
  callers left it, \<^verbatim>\<open>Backend.MergeMergeRequest\<close> returns \<^verbatim>\<open>nil\<close>; the database is
  as the other callers left it and the merge done by git stays.
\<close>

theorem merge_unrecorded_returns_success:
  assumes rep: "Repository c (SanitizeRepo c repoName) (db d) = Inr r"
      and get: "Backend_GetMergeRequest c d (SanitizeRepo c repoName) mrID = Inr mr"
      and opn: "MergeRequest.State mr = MergeRequestStateOpen"
      and gro: "Open c r (fs d) = Inr gr"
      and mrg: "performMerge c gr (MergeRequest.SourceBranch mr) (MergeRequest.TargetBranch mr)
                  (proto_User.Username user) (fs d) = (None, g)"
      and zero: "filter (\<lambda>m. MergeRequest.RepoID m = proto_Repository.ID r \<and>
                              MergeRequest.ID m = mrID \<and>
                              MergeRequest.State m = MergeRequestStateOpen)
                   (merge_requests (env (db d))) = []"
  shows "Backend_MergeMergeRequest_interleaved c now env (Some user) d repoName mrID =
           (None, \<lparr>db = env (db d), fs = g\<rparr>)"
  using Backend_MergeMergeRequest_interleaved_merged [OF rep get opn gro mrg, of now env]
    mergeRequestStore_MergeMergeRequest_zero_rows [OF zero, of now "proto_User.ID user"]
  by simp

theorem merge_unrecorded_returns_success_witness:
  "Repository example_collaborators (SanitizeRepo example_collaborators ''repo'')
     (db example_backend) =
     Inr \<lparr>proto_Repository.ID = 1, proto_Repository.Name = ''repo''\<rparr> \<and>
   Backend_GetMergeRequest example_collaborators example_backend
     (SanitizeRepo example_collaborators ''repo'') 1 = Inr mr_open \<and>
   MergeRequest.State mr_open = MergeRequestStateOpen \<and>
   Open example_collaborators \<lparr>proto_Repository.ID = 1, proto_Repository.Name = ''repo''\<rparr>
     (fs example_backend) = Inr ''/repos/repo'' \<and>
   fst (performMerge example_collaborators ''/repos/repo''
          (MergeRequest.SourceBranch mr_open) (MergeRequest.TargetBranch mr_open)
          (proto_User.Username alice) (fs example_backend)) = None \<and>
   filter (\<lambda>m. MergeRequest.RepoID m = 1 \<and> MergeRequest.ID m = 1 \<and>
                MergeRequest.State m = MergeRequestStateOpen)
     (merge_requests (bob_closes (db example_backend))) = [] \<and>
   fst (Backend_MergeMergeRequest_interleaved example_collaborators 9 bob_closes (Some alice)
          example_backend ''repo'' 1) = None \<and>
   db (snd (Backend_MergeMergeRequest_interleaved example_collaborators 9 bob_closes
              (Some alice) example_backend ''repo'' 1)) = bob_closes example_db"
proof -
  have m: "performMerge example_collaborators ''/repos/repo''
             (MergeRequest.SourceBranch mr_open) (MergeRequest.TargetBranch mr_open)
             (proto_User.Username alice) (fs example_backend) =
           (None, [[''checkout'', ''main''],
             [''merge'', ''--no-ff'', ''-m'',
              ''Merge branch '' @ [CHR 0x27] @ ''feature'' @ [CHR 0x27] @ '' into '' @
                [CHR 0x27] @ ''main'' @ [CHR 0x27],
              ''feature'']])"
    using example_performMerge by (simp add: mr_open_fields example_db_parts)
  have r: "Repository example_collaborators (SanitizeRepo example_collaborators ''repo'')
             (db example_backend) =
           Inr \<lparr>proto_Repository.ID = 1, proto_Repository.Name = ''repo''\<rparr>"
    using example_Repository by (simp add: example_db_parts)
  have z: "filter (\<lambda>m. MergeRequest.RepoID m =
                 proto_Repository.ID \<lparr>proto_Repository.ID = 1, proto_Repository.Name = ''repo''\<rparr> \<and>
                MergeRequest.ID m = 1 \<and> MergeRequest.State m = MergeRequestStateOpen)
             (merge_requests (bob_closes (db example_backend))) = []"
    using example_bob_closes_zero by (simp add: example_db_parts)
  note t = merge_unrecorded_returns_success
      [where env = bob_closes and now = 9,
       OF r example_Backend_GetMergeRequest mr_open_fields(1) example_Open m z]
  show ?thesis
    using t r example_Backend_GetMergeRequest mr_open_fields(1) example_Open m z
    by (simp add: example_db_parts)
qed

text \<open>
  Claim C3: the merge checks out the target branch, merges the source branch with
  \<^verbatim>\<open>--no-ff\<close>, and the message of the merge commit names the source branch, the
  target branch and the acting user. The commands and the message are as claimed for
  the branches, but \<open>performMerge\<close> never reads its argument \<open>author\<close>: the result is
  the same for any two users, and for \<^verbatim>\<open>alice\<close> merging \<^verbatim>\<open>feature\<close> into \<^verbatim>\<open>main\<close> the
  message is \<^verbatim>\<open>Merge branch 'feature' into 'main'\<close>, the same as for \<^verbatim>\<open>bob\<close>.
\<close>

theorem performMerge_ignores_author:
  "performMerge c repo sourceBranch targetBranch author g =
     performMerge c repo sourceBranch targetBranch author' g \<and>
   performMerge example_collaborators ''/repos/repo'' ''feature'' ''main'' ''alice'' [] =
     (None, [[''checkout'', ''main''],
             [''merge'', ''--no-ff'', ''-m'',
              ''Merge branch '' @ [CHR 0x27] @ ''feature'' @ [CHR 0x27] @ '' into '' @
                [CHR 0x27] @ ''main'' @ [CHR 0x27],
              ''feature'']]) \<and>
   performMerge example_collaborators ''/repos/repo'' ''feature'' ''main'' ''bob'' [] =
     performMerge example_collaborators ''/repos/repo'' ''feature'' ''main'' ''alice'' []"
  by (simp add: example_performMerge) (simp add: performMerge_def)

section \<open>Creation of a merge request\<close>

lemma Backend_CreateMergeRequest_ok:
  assumes rep: "Repository c (SanitizeRepo c repoName) (db d) = Inr r"
      and rin: "proto_Repository.ID r \<in> set (repos (db d))"
      and uin: "proto_User.ID user \<in> set (users (db d))"
      and gro: "Open c r (fs d) = Inr gr"
      and src: "ShowRefVerify c gr (''refs/heads/'' @ sourceBranch) (fs d) = Inr hs"
      and tgt: "ShowRefVerify c gr (''refs/heads/'' @ targetBranch) (fs d) = Inr ht"
  shows "Backend_CreateMergeRequest c now (Some user) d repoName title description
           sourceBranch targetBranch =
     (Inr (merge_requests_seq (db d) + 1),
      d\<lparr>db := (db d)\<lparr>merge_requests := merge_requests (db d) @
                 [\<lparr>MergeRequest.ID = merge_requests_seq (db d) + 1,
                   MergeRequest.RepoID = proto_Repository.ID r,
                   MergeRequest.Title = title, MergeRequest.Description = description,
                   MergeRequest.SourceBranch = sourceBranch,
                   MergeRequest.TargetBranch = targetBranch,
                   MergeRequest.State = MergeRequestStateOpen,
                   MergeRequest.AuthorID = proto_User.ID user,
                   MergeRequest.MergedBy = None, MergeRequest.MergedAt = None,
                   MergeRequest.ClosedBy = None, MergeRequest.ClosedAt = None,
                   MergeRequest.CreatedAt = now, MergeRequest.UpdatedAt = now\<rparr>],
             merge_requests_seq := merge_requests_seq (db d) + 1\<rparr>\<rparr>)"
  using rep gro src tgt
    mergeRequestStore_CreateMergeRequest_ok [OF rin uin, of now title description
      sourceBranch targetBranch]
  by (simp add: Backend_CreateMergeRequest_def TransactionContext_def)

text \<open>
  Claim C9. For an existing repository, a user of the context who exists, and a branch
  \<open>b\<close> whose reference \<^verbatim>\<open>refs/heads/b\<close> verifies, creating a merge request with
  source and target both \<open>b\<close> passes the two checks, inserts the open merge request
  and returns its identifier, which no earlier merge request has. The two
  verifications are the only conditions on the branches: whenever they pass for a
  source and a target, equal or not, the creation succeeds.
\<close>

theorem create_merge_request_same_branch:
  assumes rep: "Repository c (SanitizeRepo c repoName) (db d) = Inr r"
      and rin: "proto_Repository.ID r \<in> set (repos (db d))"
      and uin: "proto_User.ID user \<in> set (users (db d))"
      and seq: "sequences_ahead (db d)"
      and gro: "Open c r (fs d) = Inr gr"
      and ref: "ShowRefVerify c gr (''refs/heads/'' @ b) (fs d) = Inr hb"
  shows "Backend_CreateMergeRequest c now (Some user) d repoName title description b b =
     (Inr (merge_requests_seq (db d) + 1),
      d\<lparr>db := (db d)\<lparr>merge_requests := merge_requests (db d) @
                 [\<lparr>MergeRequest.ID = merge_requests_seq (db d) + 1,
                   MergeRequest.RepoID = proto_Repository.ID r,
                   MergeRequest.Title = title, MergeRequest.Description = description,
                   MergeRequest.SourceBranch = b, MergeRequest.TargetBranch = b,
                   MergeRequest.State = MergeRequestStateOpen,
                   MergeRequest.AuthorID = proto_User.ID user,
                   MergeRequest.MergedBy = None, MergeRequest.MergedAt = None,
                   MergeRequest.ClosedBy = None, MergeRequest.ClosedAt = None,
                   MergeRequest.CreatedAt = now, MergeRequest.UpdatedAt = now\<rparr>],
             merge_requests_seq := merge_requests_seq (db d) + 1\<rparr>\<rparr>) \<and>
     merge_requests_seq (db d) + 1 \<notin> MergeRequest.ID ` set (merge_requests (db d)) \<and>
     (ShowRefVerify c gr (''refs/heads/'' @ sourceBranch) (fs d) = Inr hs \<longrightarrow>
      ShowRefVerify c gr (''refs/heads/'' @ targetBranch) (fs d) = Inr ht \<longrightarrow>
        fst (Backend_CreateMergeRequest c now (Some user) d repoName title description
               sourceBranch targetBranch) = Inr (merge_requests_seq (db d) + 1))"
proof (intro conjI impI)
  show "Backend_CreateMergeRequest c now (Some user) d repoName title description b b =
     (Inr (merge_requests_seq (db d) + 1),
      d\<lparr>db := (db d)\<lparr>merge_requests := merge_requests (db d) @
                 [\<lparr>MergeRequest.ID = merge_requests_seq (db d) + 1,
                   MergeRequest.RepoID = proto_Repository.ID r,
                   MergeRequest.Title = title, MergeRequest.Description = description,
                   MergeRequest.SourceBranch = b, MergeRequest.TargetBranch = b,
                   MergeRequest.State = MergeRequestStateOpen,
                   MergeRequest.AuthorID = proto_User.ID user,
                   MergeRequest.MergedBy = None, MergeRequest.MergedAt = None,
                   MergeRequest.ClosedBy = None, MergeRequest.ClosedAt = None,
                   MergeRequest.CreatedAt = now, MergeRequest.UpdatedAt = now\<rparr>],
             merge_requests_seq := merge_requests_seq (db d) + 1\<rparr>\<rparr>)"
    by (rule Backend_CreateMergeRequest_ok [OF rep rin uin gro ref ref])
  show "merge_requests_seq (db d) + 1 \<notin> MergeRequest.ID ` set (merge_requests (db d))"
    using seq by (rule merge_requests_seq_fresh)
next
  assume "ShowRefVerify c gr (''refs/heads/'' @ sourceBranch) (fs d) = Inr hs"
     and "ShowRefVerify c gr (''refs/heads/'' @ targetBranch) (fs d) = Inr ht"
  then show "fst (Backend_CreateMergeRequest c now (Some user) d repoName title description
               sourceBranch targetBranch) = Inr (merge_requests_seq (db d) + 1)"
    using Backend_CreateMergeRequest_ok
            [where sourceBranch = sourceBranch and targetBranch = targetBranch and now = now
               and title = title and description = description, OF rep rin uin gro]
    by simp
qed

theorem create_merge_request_same_branch_witness:
  "Repository example_collaborators (SanitizeRepo example_collaborators ''repo'')
     (db example_backend) =
     Inr \<lparr>proto_Repository.ID = 1, proto_Repository.Name = ''repo''\<rparr> \<and>
   1 \<in> set (repos (db example_backend)) \<and>
   proto_User.ID alice \<in> set (users (db example_backend)) \<and>
   sequences_ahead (db example_backend) \<and>
   Open example_collaborators \<lparr>proto_Repository.ID = 1, proto_Repository.Name = ''repo''\<rparr>
     (fs example_backend) = Inr ''/repos/repo'' \<and>
   ShowRefVerify example_collaborators ''/repos/repo'' (''refs/heads/'' @ ''main'')
     (fs example_backend) = Inr ''0a1b2c'' \<and>
   fst (Backend_CreateMergeRequest example_collaborators 9 (Some alice) example_backend ''repo''
          ''Nothing to merge'' ''text'' ''main'' ''main'') = Inr 3 \<and>
   3 \<notin> MergeRequest.ID ` set (merge_requests (db example_backend)) \<and>
   fst (Backend_CreateMergeRequest example_collaborators 9 (Some alice) example_backend ''repo''
          ''A feature'' ''text'' ''feature'' ''main'') = Inr 3"
proof -
  have r: "Repository example_collaborators (SanitizeRepo example_collaborators ''repo'')
             (db example_backend) =
           Inr \<lparr>proto_Repository.ID = 1, proto_Repository.Name = ''repo''\<rparr>"
    using example_Repository by (simp add: example_db_parts)
  have rin: "proto_Repository.ID \<lparr>proto_Repository.ID = 1, proto_Repository.Name = ''repo''\<rparr>
               \<in> set (repos (db example_backend))"
    by (simp add: example_db_parts)
  have uin: "proto_User.ID alice \<in> set (users (db example_backend))"
    by (simp add: example_db_parts alice_def)
  have sq: "sequences_ahead (db example_backend)"
    using example_db_sequences by (simp add: example_db_parts)
  have m: "ShowRefVerify example_collaborators ''/repos/repo'' (''refs/heads/'' @ ''main'')
             (fs example_backend) = Inr ''0a1b2c''"
    by (simp add: example_collaborators_def)
  have f: "ShowRefVerify example_collaborators ''/repos/repo'' (''refs/heads/'' @ ''feature'')
             (fs example_backend) = Inr ''0a1b2c''"
    by (simp add: example_collaborators_def)
  note t = create_merge_request_same_branch
      [where now = 9 and title = "''Nothing to merge''" and description = "''text''",
       OF r rin uin sq example_Open m]
  note u = create_merge_request_same_branch
      [where now = 9 and title = "''A feature''" and description = "''text''"
         and sourceBranch = "''feature''" and targetBranch = "''main''"
         and hs = "''0a1b2c''" and ht = "''0a1b2c''",
       OF r rin uin sq example_Open m]
  have a: "fst (Backend_CreateMergeRequest example_collaborators 9 (Some alice) example_backend
          ''repo'' ''Nothing to merge'' ''text'' ''main'' ''main'') = Inr 3"
    using t [THEN conjunct1] by (simp add: example_db_parts)
  have b: "3 \<notin> MergeRequest.ID ` set (merge_requests (db example_backend))"
    using t [THEN conjunct2, THEN conjunct1] by (simp add: example_db_parts)
  have c: "fst (Backend_CreateMergeRequest example_collaborators 9 (Some alice) example_backend
          ''repo'' ''A feature'' ''text'' ''feature'' ''main'') = Inr 3"
    using u [THEN conjunct2, THEN conjunct2] m f by (simp add: example_db_parts)
  show ?thesis
    using r rin uin sq example_Open m a b c by simp
qed

section \<open>The merged state is terminal\<close>

lemma ExecUpdate_rows:
  "ExecUpdate wh st ok rows = Inr (res, rows') \<Longrightarrow>
   rows' = map (\<lambda>r. if wh r then st r else r) rows"
  by (auto simp: ExecUpdate_def split: list.splits)

lemma list_all2_map_self:
  "(\<And>x. x \<in> set xs \<Longrightarrow> P x (g x)) \<Longrightarrow> list_all2 P xs (map g xs)"
  by (induction xs) auto

lemma merged_kept_refl: "merged_kept m m"
  by (simp add: merged_kept_def)

lemma merged_kept_trans: "merged_kept a b \<Longrightarrow> merged_kept b c \<Longrightarrow> merged_kept a c"
  unfolding merged_kept_def by metis

lemma run_operation_merged_kept:
  assumes "run_operation now h op = Inr h'"
  shows "list_all2 merged_kept (merge_requests h) (merge_requests h')"
proof (cases op)
  case (OpUpdate r i t d)
  with assms show ?thesis
    by (auto simp: mergeRequestStore_UpdateMergeRequest_def merged_kept_def
          split: sum.splits dest!: ExecUpdate_rows intro!: list_all2_map_self)
next
  case (OpMerge r i u)
  with assms show ?thesis
    by (auto simp: mergeRequestStore_MergeMergeRequest_def merged_kept_def
          MergeRequestStateOpen_def MergeRequestStateMerged_def
          split: sum.splits dest!: ExecUpdate_rows intro!: list_all2_map_self)
next
  case (OpClose r i u)
  with assms show ?thesis
    by (auto simp: mergeRequestStore_CloseMergeRequest_def merged_kept_def
          MergeRequestStateOpen_def MergeRequestStateMerged_def
          split: sum.splits dest!: ExecUpdate_rows intro!: list_all2_map_self)
next
  case (OpReopen r i)
  with assms show ?thesis
    by (auto simp: mergeRequestStore_ReopenMergeRequest_def merged_kept_def
          MergeRequestStateClosed_def MergeRequestStateMerged_def
          split: sum.splits dest!: ExecUpdate_rows intro!: list_all2_map_self)
qed

lemma run_operations_merged_kept:
  "list_all2 merged_kept (merge_requests h) (merge_requests (run_operations h ops))"
proof (induction ops arbitrary: h)
  case Nil
  show ?case by (simp add: list_all2_refl merged_kept_refl)
next
  case (Cons x ops)
  obtain now op where x: "x = (now, op)" by (cases x)
  show ?case
  proof (cases "run_operation now h op")
    case (Inl e)
    with x Cons.IH [of h] show ?thesis by simp
  next
    case (Inr h1)
    have "list_all2 merged_kept (merge_requests h) (merge_requests h1)"
      using Inr by (rule run_operation_merged_kept)
    moreover have "list_all2 merged_kept (merge_requests h1)
                     (merge_requests (run_operations h1 ops))"
      by (rule Cons.IH)
    ultimately have "list_all2 merged_kept (merge_requests h)
                       (merge_requests (run_operations h1 ops))"
      using merged_kept_trans list_all2_trans by blast
    with x Inr show ?thesis by simp
  qed
qed


lemma mergeRequestStore_UpdateMergeRequest_columns:
  assumes "mergeRequestStore_UpdateMergeRequest now h repoID id' title description = Inr h'"
  shows "map MergeRequest.State (merge_requests h') = map MergeRequest.State (merge_requests h) \<and>
         map MergeRequest.MergedBy (merge_requests h') =
           map MergeRequest.MergedBy (merge_requests h) \<and>
         map MergeRequest.MergedAt (merge_requests h') =
           map MergeRequest.MergedAt (merge_requests h)"
  using assms
  by (auto simp: mergeRequestStore_UpdateMergeRequest_def split: sum.splits
           dest!: ExecUpdate_rows)

lemma mergeRequestStore_CloseMergeRequest_columns:
  assumes "mergeRequestStore_CloseMergeRequest now h repoID id' closedBy = Inr h'"
  shows "map MergeRequest.MergedBy (merge_requests h') =
           map MergeRequest.MergedBy (merge_requests h) \<and>
         map MergeRequest.MergedAt (merge_requests h') =
           map MergeRequest.MergedAt (merge_requests h)"
  using assms
  by (auto simp: mergeRequestStore_CloseMergeRequest_def split: sum.splits
           dest!: ExecUpdate_rows)

lemma mergeRequestStore_ReopenMergeRequest_columns:
  assumes "mergeRequestStore_ReopenMergeRequest now h repoID id' = Inr h'"
  shows "map MergeRequest.MergedBy (merge_requests h') =
           map MergeRequest.MergedBy (merge_requests h) \<and>
         map MergeRequest.MergedAt (merge_requests h') =
           map MergeRequest.MergedAt (merge_requests h)"
  using assms
  by (auto simp: mergeRequestStore_ReopenMergeRequest_def split: sum.splits
           dest!: ExecUpdate_rows)

lemma mergeRequestStore_MergeMergeRequest_columns:
  assumes "mergeRequestStore_MergeMergeRequest now h repoID id' mergedBy = Inr h'"
  shows "list_all2
           (\<lambda>m m'. if MergeRequest.RepoID m = repoID \<and> MergeRequest.ID m = id' \<and>
                       MergeRequest.State m = MergeRequestStateOpen
                    then MergeRequest.State m' = MergeRequestStateMerged \<and>
                         MergeRequest.MergedBy m' = Some mergedBy \<and>
                         MergeRequest.MergedAt m' = Some now
                    else m' = m)
           (merge_requests h) (merge_requests h')"
  using assms
  by (auto simp: mergeRequestStore_MergeMergeRequest_def split: sum.splits
           dest!: ExecUpdate_rows intro!: list_all2_map_self)

lemma example_no_closed_mr_2:
  "filter (\<lambda>m. MergeRequest.RepoID m = 1 \<and> MergeRequest.ID m = 2 \<and>
                MergeRequest.State m = MergeRequestStateClosed) (merge_requests example_db) = []"
  by (simp add: example_db_def mr_open_def mr_merged_def MergeRequestStateClosed_def)

lemma example_history:
  "map (\<lambda>m. (MergeRequest.ID m, MergeRequest.State m, MergeRequest.MergedBy m,
              MergeRequest.MergedAt m))
     (merge_requests (run_operations example_db
        [(5, OpClose 1 2 7), (6, OpReopen 1 2), (7, OpMerge 1 2 7),
         (8, OpUpdate 1 2 ''Renamed'' ''text''), (9, OpMerge 1 1 7), (10, OpClose 1 1 8)])) =
   [(1, 1, Some 7, Some 9), (2, 1, Some 8, Some 4)]"
  by (simp add: mergeRequestStore_UpdateMergeRequest_def mergeRequestStore_MergeMergeRequest_def
     mergeRequestStore_CloseMergeRequest_def mergeRequestStore_ReopenMergeRequest_def
     ExecUpdate_def List.map_filter_simps example_db_def mr_open_def mr_merged_def
     MergeRequestStateOpen_def MergeRequestStateMerged_def MergeRequestStateClosed_def
     fk_violation_def merge_requests_fks_def refers_def)

text \<open>
  Claim C7. Through any history of updates, merges, closings and reopenings of the
  store, each row of \<^verbatim>\<open>merge_requests\<close> that is merged stays merged and keeps its
  \<^verbatim>\<open>merged_by\<close> and \<^verbatim>\<open>merged_at\<close>, and these two columns differ from what they were
  only in a row that is merged afterwards. Step by step: an update changes neither
  the state nor the two columns of any row; closing and reopening change neither
  column; a merge writes them in the rows that match and are open, which become
  merged, and leaves every other row as it is.
\<close>

theorem merged_is_terminal:
  "list_all2 merged_kept (merge_requests h) (merge_requests (run_operations h ops)) \<and>
   (mergeRequestStore_UpdateMergeRequest now h repoID id' title description = Inr h1 \<longrightarrow>
      map MergeRequest.State (merge_requests h1) = map MergeRequest.State (merge_requests h) \<and>
      map MergeRequest.MergedBy (merge_requests h1) =
        map MergeRequest.MergedBy (merge_requests h) \<and>
      map MergeRequest.MergedAt (merge_requests h1) =
        map MergeRequest.MergedAt (merge_requests h)) \<and>
   (mergeRequestStore_CloseMergeRequest now h repoID id' actor = Inr h2 \<longrightarrow>
      map MergeRequest.MergedBy (merge_requests h2) =
        map MergeRequest.MergedBy (merge_requests h) \<and>
      map MergeRequest.MergedAt (merge_requests h2) =
        map MergeRequest.MergedAt (merge_requests h)) \<and>
   (mergeRequestStore_ReopenMergeRequest now h repoID id' = Inr h3 \<longrightarrow>
      map MergeRequest.MergedBy (merge_requests h3) =
        map MergeRequest.MergedBy (merge_requests h) \<and>
      map MergeRequest.MergedAt (merge_requests h3) =
        map MergeRequest.MergedAt (merge_requests h)) \<and>
   (mergeRequestStore_MergeMergeRequest now h repoID id' actor = Inr h4 \<longrightarrow>
      list_all2
        (\<lambda>m m'. if MergeRequest.RepoID m = repoID \<and> MergeRequest.ID m = id' \<and>
                    MergeRequest.State m = MergeRequestStateOpen
                 then MergeRequest.State m' = MergeRequestStateMerged \<and>
                      MergeRequest.MergedBy m' = Some actor \<and>
                      MergeRequest.MergedAt m' = Some now
                 else m' = m)
        (merge_requests h) (merge_requests h4))"
proof (intro conjI impI)
  show "list_all2 merged_kept (merge_requests h) (merge_requests (run_operations h ops))"
    by (rule run_operations_merged_kept)
qed (simp_all add: mergeRequestStore_UpdateMergeRequest_columns
       mergeRequestStore_CloseMergeRequest_columns mergeRequestStore_ReopenMergeRequest_columns
       mergeRequestStore_MergeMergeRequest_columns)

theorem merged_is_terminal_witness:
  "mergeRequestStore_GetMergeRequestByID example_db 1 2 = Inr mr_merged \<and>
   MergeRequest.State mr_merged = MergeRequestStateMerged \<and>
   list_all2 merged_kept (merge_requests example_db)
     (merge_requests (run_operations example_db
        [(5, OpClose 1 2 7), (6, OpReopen 1 2), (7, OpMerge 1 2 7),
         (8, OpUpdate 1 2 ''Renamed'' ''text''), (9, OpMerge 1 1 7), (10, OpClose 1 1 8)])) \<and>
   map (\<lambda>m. (MergeRequest.ID m, MergeRequest.State m, MergeRequest.MergedBy m,
              MergeRequest.MergedAt m))
     (merge_requests (run_operations example_db
        [(5, OpClose 1 2 7), (6, OpReopen 1 2), (7, OpMerge 1 2 7),
         (8, OpUpdate 1 2 ''Renamed'' ''text''), (9, OpMerge 1 1 7), (10, OpClose 1 1 8)])) =
     [(1, 1, Some 7, Some 9), (2, 1, Some 8, Some 4)] \<and>
   mergeRequestStore_UpdateMergeRequest 9 example_db 1 2 ''Renamed'' ''text'' =
     Inr (example_db\<lparr>merge_requests :=
            [mr_open, mr_merged\<lparr>MergeRequest.Title := ''Renamed'',
                                  MergeRequest.Description := ''text'',
                                  MergeRequest.UpdatedAt := 9\<rparr>]\<rparr>) \<and>
   map MergeRequest.State [mr_open, mr_merged\<lparr>MergeRequest.Title := ''Renamed'',
                                  MergeRequest.Description := ''text'',
                                  MergeRequest.UpdatedAt := 9\<rparr>] =
     map MergeRequest.State [mr_open, mr_merged] \<and>
   mergeRequestStore_CloseMergeRequest 9 example_db 1 2 7 = Inr example_db \<and>
   mergeRequestStore_ReopenMergeRequest 9 example_db 1 2 = Inr example_db \<and>
   mergeRequestStore_MergeMergeRequest 9 example_db 1 2 7 = Inr example_db \<and>
   list_all2
     (\<lambda>m m'. if MergeRequest.RepoID m = 1 \<and> MergeRequest.ID m = 2 \<and>
                 MergeRequest.State m = MergeRequestStateOpen
              then MergeRequest.State m' = MergeRequestStateMerged \<and>
                   MergeRequest.MergedBy m' = Some 7 \<and> MergeRequest.MergedAt m' = Some 9
              else m' = m)
     (merge_requests example_db) (merge_requests example_db)"
proof -
  have g: "mergeRequestStore_GetMergeRequestByID example_db 1 2 = Inr mr_merged"
    by (simp add: mergeRequestStore_GetMergeRequestByID_def GetContext_def example_db_parts
          mr_open_def mr_merged_def)
  have s: "MergeRequest.State mr_merged = MergeRequestStateMerged"
    by (simp add: mr_merged_def MergeRequestStateMerged_def)
  have u: "mergeRequestStore_UpdateMergeRequest 9 example_db 1 2 ''Renamed'' ''text'' =
     Inr (example_db\<lparr>merge_requests :=
            [mr_open, mr_merged\<lparr>MergeRequest.Title := ''Renamed'',
                                  MergeRequest.Description := ''text'',
                                  MergeRequest.UpdatedAt := 9\<rparr>]\<rparr>)"
    using mergeRequestStore_UpdateMergeRequest_ok [OF example_db_integrity, of 9 1 2
            "''Renamed''" "''text''"]
    by (simp add: example_db_parts mr_open_def mr_merged_def)
  have c: "mergeRequestStore_CloseMergeRequest 9 example_db 1 2 7 = Inr example_db"
    by (rule mergeRequestStore_CloseMergeRequest_zero_rows [OF example_no_open_mr_2])
  have r: "mergeRequestStore_ReopenMergeRequest 9 example_db 1 2 = Inr example_db"
    by (rule mergeRequestStore_ReopenMergeRequest_zero_rows [OF example_no_closed_mr_2])
  have m: "mergeRequestStore_MergeMergeRequest 9 example_db 1 2 7 = Inr example_db"
    by (rule mergeRequestStore_MergeMergeRequest_zero_rows [OF example_no_open_mr_2])
  note t = merged_is_terminal [of example_db
      "[(5, OpClose 1 2 7), (6, OpReopen 1 2), (7, OpMerge 1 2 7),
        (8, OpUpdate 1 2 ''Renamed'' ''text''), (9, OpMerge 1 1 7), (10, OpClose 1 1 8)]"
      9 1 2 "''Renamed''" "''text''"
      "example_db\<lparr>merge_requests :=
            [mr_open, mr_merged\<lparr>MergeRequest.Title := ''Renamed'',
                                  MergeRequest.Description := ''text'',
                                  MergeRequest.UpdatedAt := 9\<rparr>]\<rparr>"
      7 example_db example_db example_db]
  have t1: "list_all2 merged_kept (merge_requests example_db)
     (merge_requests (run_operations example_db
        [(5, OpClose 1 2 7), (6, OpReopen 1 2), (7, OpMerge 1 2 7),
         (8, OpUpdate 1 2 ''Renamed'' ''text''), (9, OpMerge 1 1 7), (10, OpClose 1 1 8)]))"
    using t by (rule conjunct1)
  have t2: "map MergeRequest.State [mr_open, mr_merged\<lparr>MergeRequest.Title := ''Renamed'',
                                  MergeRequest.Description := ''text'',
                                  MergeRequest.UpdatedAt := 9\<rparr>] =
     map MergeRequest.State [mr_open, mr_merged]"
    using t [THEN conjunct2, THEN conjunct1] u by (simp add: example_db_parts)
  have t5: "list_all2
     (\<lambda>m m'. if MergeRequest.RepoID m = 1 \<and> MergeRequest.ID m = 2 \<and>
                 MergeRequest.State m = MergeRequestStateOpen
              then MergeRequest.State m' = MergeRequestStateMerged \<and>
                   MergeRequest.MergedBy m' = Some 7 \<and> MergeRequest.MergedAt m' = Some 9
              else m' = m)
     (merge_requests example_db) (merge_requests example_db)"
    using t [THEN conjunct2, THEN conjunct2, THEN conjunct2, THEN conjunct2] m by blast
  show ?thesis
    using g s t1 example_history u t2 c r m t5 by (intro conjI)
qed

section \<open>Deleting a repository\<close>

lemma cascaded_Repos_issues:
  "cascaded Repos ks issues_fks i \<longleftrightarrow> Issue.RepoID i \<in> set ks"
  by (simp add: cascaded_def issues_fks_def refers_def)

lemma cascaded_Repos_merge_requests:
  "cascaded Repos ks merge_requests_fks m \<longleftrightarrow> MergeRequest.RepoID m \<in> set ks"
  by (simp add: cascaded_def merge_requests_fks_def refers_def)

lemma cascaded_Repos_issue_dependencies:
  "cascaded Repos ks issue_dependencies_fks e \<longleftrightarrow> False"
  by (simp add: cascaded_def issue_dependencies_fks_def)

lemma cascaded_Issues_issue_dependencies:
  "cascaded Issues ks issue_dependencies_fks e \<longleftrightarrow>
     IssueDependency.IssueID e \<in> set ks \<or> IssueDependency.DependsOnID e \<in> set ks"
  by (simp add: cascaded_def issue_dependencies_fks_def refers_def)

lemma nullify_Repos_issues: "nullify Repos ks issues_fks = (\<lambda>i. i)"
  by (rule ext) (simp add: nullify_def issues_fks_def)

lemma nullify_Repos_merge_requests: "nullify Repos ks merge_requests_fks = (\<lambda>m. m)"
  by (rule ext) (simp add: nullify_def merge_requests_fks_def)

lemma nullify_issue_dependencies: "nullify t ks issue_dependencies_fks = (\<lambda>e. e)"
  by (rule ext) (simp add: nullify_def issue_dependencies_fks_def)

lemma delete_from_repos_tables:
  "repos (delete_from_repos ks h) = filter (\<lambda>k. k \<notin> set ks) (repos h)"
  "users (delete_from_repos ks h) = users h"
  "issues (delete_from_repos ks h) = filter (\<lambda>i. Issue.RepoID i \<notin> set ks) (issues h)"
  "merge_requests (delete_from_repos ks h) =
     filter (\<lambda>m. MergeRequest.RepoID m \<notin> set ks) (merge_requests h)"
  "issue_dependencies (delete_from_repos ks h) =
     filter (\<lambda>e. IssueDependency.IssueID e \<notin>
                    Issue.ID ` {i \<in> set (issues h). Issue.RepoID i \<in> set ks} \<and>
                  IssueDependency.DependsOnID e \<notin>
                    Issue.ID ` {i \<in> set (issues h). Issue.RepoID i \<in> set ks})
       (issue_dependencies h)"
  by (simp_all add: delete_from_repos_def Let_def kept_rows_def deleted_rows_def
        cascaded_Repos_issues cascaded_Repos_merge_requests cascaded_Repos_issue_dependencies
        cascaded_Issues_issue_dependencies nullify_Repos_issues nullify_Repos_merge_requests
        nullify_issue_dependencies)

lemma delete_from_repos_integrity:
  assumes "referential_integrity h"
  shows "referential_integrity (delete_from_repos ks h)"
proof -
  have i: "\<forall>i\<in>set (issues h). fk_violation h issues_fks i = None"
   and m: "\<forall>m\<in>set (merge_requests h). fk_violation h merge_requests_fks m = None"
   and e: "\<forall>e\<in>set (issue_dependencies h). fk_violation h issue_dependencies_fks e = None"
    using assms by (simp_all add: referential_integrity_def list_all_iff)
  have "\<forall>i\<in>set (issues (delete_from_repos ks h)).
          fk_violation (delete_from_repos ks h) issues_fks i = None"
    using i by (auto simp: delete_from_repos_tables issues_fk_violation_None_iff)
  moreover have "\<forall>m\<in>set (merge_requests (delete_from_repos ks h)).
          fk_violation (delete_from_repos ks h) merge_requests_fks m = None"
    using m by (auto simp: delete_from_repos_tables merge_requests_fk_violation_None_iff)
  moreover have "\<forall>e\<in>set (issue_dependencies (delete_from_repos ks h)).
          fk_violation (delete_from_repos ks h) issue_dependencies_fks e = None"
  proof
    fix x assume x: "x \<in> set (issue_dependencies (delete_from_repos ks h))"
    then have xin: "x \<in> set (issue_dependencies h)"
      and a: "IssueDependency.IssueID x \<notin>
                Issue.ID ` {i \<in> set (issues h). Issue.RepoID i \<in> set ks}"
      and b: "IssueDependency.DependsOnID x \<notin>
                Issue.ID ` {i \<in> set (issues h). Issue.RepoID i \<in> set ks}"
      by (simp_all add: delete_from_repos_tables)
    from e xin have "IssueDependency.IssueID x \<in> Issue.ID ` set (issues h)"
      and "IssueDependency.DependsOnID x \<in> Issue.ID ` set (issues h)"
      by (simp_all add: issue_dependencies_fk_violation_None_iff)
    with a b have "IssueDependency.IssueID x \<in>
                     Issue.ID ` {i \<in> set (issues h). Issue.RepoID i \<notin> set ks}"
      and "IssueDependency.DependsOnID x \<in>
                     Issue.ID ` {i \<in> set (issues h). Issue.RepoID i \<notin> set ks}"
      by auto
    then show "fk_violation (delete_from_repos ks h) issue_dependencies_fks x = None"
      by (simp add: issue_dependencies_fk_violation_None_iff delete_from_repos_tables)
  qed
  ultimately show ?thesis
    by (simp add: referential_integrity_def list_all_iff)
qed

lemma two_repos_db_integrity: "referential_integrity two_repos_db"
  by (simp add: referential_integrity_def issues_fk_violation_None_iff
        merge_requests_fk_violation_None_iff issue_dependencies_fk_violation_None_iff
        two_repos_db_def issue_open_def issue_closed_def issue_other_def
        mr_open_def mr_merged_def mr_other_def edge_1_2_def)

text \<open>
  Claim C10. Deleting repositories from a database that satisfies its foreign keys
  removes, through the \<^verbatim>\<open>ON DELETE CASCADE\<close> keys of the schema, exactly the issues and
  the merge requests of these repositories and the dependencies with an end among the
  removed issues. The database satisfies its foreign keys afterwards, so every issue
  and merge request left belongs to a repository that exists and every dependency left
  joins two issues that exist; reading an issue or a merge request of a deleted
  repository gives \<^verbatim>\<open>sql.ErrNoRows\<close>.
\<close>

theorem delete_repository_cascades:
  assumes "referential_integrity h"
  shows "repos (delete_from_repos ks h) = filter (\<lambda>k. k \<notin> set ks) (repos h) \<and>
         issues (delete_from_repos ks h) =
           filter (\<lambda>i. Issue.RepoID i \<notin> set ks) (issues h) \<and>
         merge_requests (delete_from_repos ks h) =
           filter (\<lambda>m. MergeRequest.RepoID m \<notin> set ks) (merge_requests h) \<and>
         issue_dependencies (delete_from_repos ks h) =
           filter (\<lambda>e. IssueDependency.IssueID e \<notin>
                          set (map Issue.ID (filter (\<lambda>i. Issue.RepoID i \<in> set ks) (issues h))) \<and>
                        IssueDependency.DependsOnID e \<notin>
                          set (map Issue.ID (filter (\<lambda>i. Issue.RepoID i \<in> set ks) (issues h))))
             (issue_dependencies h) \<and>
         referential_integrity (delete_from_repos ks h) \<and>
         (repoID \<in> set ks \<longrightarrow>
            issueStore_GetIssueByID (delete_from_repos ks h) repoID id' = Inl ErrNoRows \<and>
            mergeRequestStore_GetMergeRequestByID (delete_from_repos ks h) repoID id' =
              Inl ErrNoRows)"
proof (intro conjI impI)
  show "referential_integrity (delete_from_repos ks h)"
    using assms by (rule delete_from_repos_integrity)
next
  assume "repoID \<in> set ks"
  then show "issueStore_GetIssueByID (delete_from_repos ks h) repoID id' = Inl ErrNoRows"
    by (auto simp: issueStore_GetIssueByID_def GetContext_ErrNoRows delete_from_repos_tables
          filter_empty_conv)
next
  assume "repoID \<in> set ks"
  then show "mergeRequestStore_GetMergeRequestByID (delete_from_repos ks h) repoID id' =
               Inl ErrNoRows"
    by (auto simp: mergeRequestStore_GetMergeRequestByID_def GetContext_ErrNoRows
          delete_from_repos_tables filter_empty_conv)
next
  have "set (map Issue.ID (filter (\<lambda>i. Issue.RepoID i \<in> set ks) (issues h))) =
        Issue.ID ` {i \<in> set (issues h). Issue.RepoID i \<in> set ks}"
    by auto
  then show "issue_dependencies (delete_from_repos ks h) =
           filter (\<lambda>e. IssueDependency.IssueID e \<notin>
                          set (map Issue.ID (filter (\<lambda>i. Issue.RepoID i \<in> set ks) (issues h))) \<and>
                        IssueDependency.DependsOnID e \<notin>
                          set (map Issue.ID (filter (\<lambda>i. Issue.RepoID i \<in> set ks) (issues h))))
             (issue_dependencies h)"
    by (simp only: delete_from_repos_tables)
qed (simp_all add: delete_from_repos_tables)

theorem delete_repository_cascades_witness:
  "referential_integrity two_repos_db \<and>
   repos (delete_from_repos [1] two_repos_db) = [2] \<and>
   issues (delete_from_repos [1] two_repos_db) = [issue_other] \<and>
   merge_requests (delete_from_repos [1] two_repos_db) = [mr_other] \<and>
   issue_dependencies (delete_from_repos [1] two_repos_db) = [] \<and>
   referential_integrity (delete_from_repos [1] two_repos_db) \<and>
   issueStore_GetIssueByID two_repos_db 1 2 = Inr issue_closed \<and>
   issueStore_GetIssueByID (delete_from_repos [1] two_repos_db) 1 2 = Inl ErrNoRows \<and>
   mergeRequestStore_GetMergeRequestByID (delete_from_repos [1] two_repos_db) 1 2 =
     Inl ErrNoRows"
proof -
  note t = delete_repository_cascades [OF two_repos_db_integrity, of "[1]" 1 2]
  have a: "repos (delete_from_repos [1] two_repos_db) = [2]"
    using t [THEN conjunct1] by (simp add: two_repos_db_def)
  have b: "issues (delete_from_repos [1] two_repos_db) = [issue_other]"
    using t [THEN conjunct2, THEN conjunct1]
    by (simp add: two_repos_db_def issue_open_def issue_closed_def issue_other_def)
  have c: "merge_requests (delete_from_repos [1] two_repos_db) = [mr_other]"
    using t [THEN conjunct2, THEN conjunct2, THEN conjunct1]
    by (simp add: two_repos_db_def mr_open_def mr_merged_def mr_other_def)
  have d: "issue_dependencies (delete_from_repos [1] two_repos_db) = []"
    using t [THEN conjunct2, THEN conjunct2, THEN conjunct2, THEN conjunct1]
    by (simp add: two_repos_db_def issue_open_def issue_closed_def issue_other_def
          edge_1_2_def)
  have e: "referential_integrity (delete_from_repos [1] two_repos_db)"
    using t by blast
  have f: "issueStore_GetIssueByID (delete_from_repos [1] two_repos_db) 1 2 = Inl ErrNoRows \<and>
           mergeRequestStore_GetMergeRequestByID (delete_from_repos [1] two_repos_db) 1 2 =
             Inl ErrNoRows"
    using t by simp
  have g: "issueStore_GetIssueByID two_repos_db 1 2 = Inr issue_closed"
    by (simp add: issueStore_GetIssueByID_def GetContext_def two_repos_db_def issue_open_def
          issue_closed_def issue_other_def)
  show ?thesis
    using two_repos_db_integrity a b c d e f g by simp
qed

section \<open>Further facts on the facade\<close>

text \<open>
  The facade's own check before a merge, the closing and reopening of a merge request
  that match no row, and a merge that nobody interferes with: Alice merges the open
  merge request 1, which is then merged by her at the time of the call.
\<close>

lemma Backend_MergeMergeRequest_not_open:
  assumes "Repository c (SanitizeRepo c repoName) (db d) = Inr r"
      and "Backend_GetMergeRequest c d (SanitizeRepo c repoName) mrID = Inr mr"
      and "MergeRequest.State mr \<noteq> MergeRequestStateOpen"
  shows "Backend_MergeMergeRequest c now (Some user) d repoName mrID =
           (Some (ErrorsNew ''merge request is not open''), d)"
  using assms
  by (simp add: Backend_MergeMergeRequest_def Backend_MergeMergeRequest_interleaved_def Let_def)

lemma Backend_CloseMergeRequest_zero_rows:
  "Repository c (SanitizeRepo c repoName) (db d) = Inr r \<Longrightarrow>
   filter (\<lambda>m. MergeRequest.RepoID m = proto_Repository.ID r \<and> MergeRequest.ID m = mrID \<and>
                MergeRequest.State m = MergeRequestStateOpen) (merge_requests (db d)) = [] \<Longrightarrow>
   Backend_CloseMergeRequest c now (Some user) d repoName mrID = (None, d)"
  by (simp add: Backend_CloseMergeRequest_def TransactionContext_def
        mergeRequestStore_CloseMergeRequest_zero_rows)

lemma Backend_ReopenMergeRequest_zero_rows:
  "Repository c (SanitizeRepo c repoName) (db d) = Inr r \<Longrightarrow>
   filter (\<lambda>m. MergeRequest.RepoID m = proto_Repository.ID r \<and> MergeRequest.ID m = mrID \<and>
                MergeRequest.State m = MergeRequestStateClosed) (merge_requests (db d)) = [] \<Longrightarrow>
   Backend_ReopenMergeRequest c now d repoName mrID = (None, d)"
  by (simp add: Backend_ReopenMergeRequest_def TransactionContext_def
        mergeRequestStore_ReopenMergeRequest_zero_rows)

lemma example_Backend_MergeMergeRequest:
  "Backend_MergeMergeRequest example_collaborators 9 (Some alice) example_backend ''repo'' 1 =
   (None,
    \<lparr>db = example_db\<lparr>merge_requests :=
            [mr_open\<lparr>MergeRequest.State := MergeRequestStateMerged,
                      MergeRequest.MergedBy := Some 7, MergeRequest.MergedAt := Some 9,
                      MergeRequest.UpdatedAt := 9\<rparr>, mr_merged]\<rparr>,
     fs = [[''checkout'', ''main''],
           [''merge'', ''--no-ff'', ''-m'',
            ''Merge branch '' @ [CHR 0x27] @ ''feature'' @ [CHR 0x27] @ '' into '' @
              [CHR 0x27] @ ''main'' @ [CHR 0x27],
            ''feature'']]\<rparr>)"
proof -
  have m: "performMerge example_collaborators ''/repos/repo''
             (MergeRequest.SourceBranch mr_open) (MergeRequest.TargetBranch mr_open)
             (proto_User.Username alice) (fs example_backend) =
           (None, [[''checkout'', ''main''],
             [''merge'', ''--no-ff'', ''-m'',
              ''Merge branch '' @ [CHR 0x27] @ ''feature'' @ [CHR 0x27] @ '' into '' @
                [CHR 0x27] @ ''main'' @ [CHR 0x27],
              ''feature'']])"
    using example_performMerge by (simp add: mr_open_fields example_db_parts)
  have r: "Repository example_collaborators (SanitizeRepo example_collaborators ''repo'')
             (db example_backend) =
           Inr \<lparr>proto_Repository.ID = 1, proto_Repository.Name = ''repo''\<rparr>"
    using example_Repository by (simp add: example_db_parts)
  have v: "fk_violation example_db merge_requests_fks
          (mr_open\<lparr>MergeRequest.State := MergeRequestStateMerged,
                 MergeRequest.MergedBy := Some 7, MergeRequest.MergedAt := Some 9,
                 MergeRequest.UpdatedAt := 9\<rparr>) = None"
    by (simp add: merge_requests_fk_violation_None_iff example_db_parts mr_open_def)
  have z: "mergeRequestStore_MergeMergeRequest 9 (db example_backend) 1 1
             (proto_User.ID alice) =
           Inr (example_db\<lparr>merge_requests :=
            [mr_open\<lparr>MergeRequest.State := MergeRequestStateMerged,
                      MergeRequest.MergedBy := Some 7, MergeRequest.MergedAt := Some 9,
                      MergeRequest.UpdatedAt := 9\<rparr>, mr_merged]\<rparr>)"
    using v
    by (simp add: mergeRequestStore_MergeMergeRequest_def ExecUpdate_def
          List.map_filter_simps example_db_parts mr_open_def mr_merged_def alice_def
          MergeRequestStateOpen_def)
  show ?thesis
    using Backend_MergeMergeRequest_interleaved_merged
      [OF r example_Backend_GetMergeRequest mr_open_fields(1) example_Open m,
       of 9 "\<lambda>h. h"] z
    by (simp add: Backend_MergeMergeRequest_def)
qed

end
